theory Spec2Isabelle
  imports Complex_Main "HOL-Library.Word" "HOL-Library.AList"
begin

section \<open>Face swapping pipeline: data model\<close>

text \<open>
  The development follows \<^verbatim>\<open>scripts/faceswaplab_swapping/swapper.py\<close> and
  \<^verbatim>\<open>scripts/faceswaplab_swapping/upscaled_inswapper.py\<close>.

  Numbers: Python integers are \<^typ>\<open>int\<close>; \<^verbatim>\<open>uint8\<close> pixels are \<^typ>\<open>8 word\<close>. A
  floating point number is the \<^typ>\<open>real\<close> it denotes, and every arithmetic operation
  on floating point numbers is the exact operation followed by the rounding of its
  format: \<open>fl32\<close> for numpy's \<^verbatim>\<open>float32\<close> (embeddings, bounding boxes, similarity
  scores, masks), \<open>fl64\<close> for Python's \<^verbatim>\<open>float\<close>. Comparisons are exact. Infinities and
  NaN are not part of the model: a result beyond the largest finite number of the format
  is rounded as if the exponent range were unbounded.

  Exceptions are values of \<open>error\<close>; a function that can raise returns \<open>error + 'a\<close>.
\<close>

section \<open>Floating point rounding\<close>

text \<open>Rounding to the nearest integer, a tie to the even one.\<close>

definition round_half_even :: "real \<Rightarrow> int" where
  "round_half_even y =
     (let f = \<lfloor>y\<rfloor>; d = y - of_int f
      in if d < 1 / 2 then f else if 1 / 2 < d then f + 1 else if even f then f else f + 1)"

text \<open>
  IEEE 754 rounding to nearest, ties to even, for a binary format with \<open>p\<close> significant
  bits and least normal exponent \<open>emin\<close>: \<open>x\<close> is rounded to a multiple of the unit in
  the last place of its binade, and below \<open>2 powi emin\<close> to a multiple of the least
  subnormal number.
\<close>

definition fl :: "nat \<Rightarrow> int \<Rightarrow> real \<Rightarrow> real" where
  "fl p emin x =
     (if x = 0 then 0
      else
        let e = max \<lfloor>log 2 \<bar>x\<bar>\<rfloor> emin; u = 2 powi (e - int p + 1)
        in real_of_int (round_half_even (x / u)) * u)"

definition fl32 :: "real \<Rightarrow> real" where
  "fl32 = fl 24 (- 126)"

definition fl64 :: "real \<Rightarrow> real" where
  "fl64 = fl 53 (- 1022)"

text \<open>
  A sum of \<^verbatim>\<open>float32\<close> numbers accumulated in the order of the list, starting with the
  first element, each addition rounded.
\<close>

definition f32_sum :: "real list \<Rightarrow> real" where
  "f32_sum xs = (case xs of [] \<Rightarrow> 0 | x # rest \<Rightarrow> foldl (\<lambda>acc y. fl32 (acc + y)) x rest)"

datatype error =
    ValueError
  | AssertionError
  | TypeError
  | AttributeError
  | SwapperError
  | CvError

text \<open>
  \<^verbatim>\<open>insightface.app.common.Face\<close>, with the attributes that \<^verbatim>\<open>swapper.py\<close> reads.
  \<open>bbox\<close> is \<^verbatim>\<open>(x0, y0, x1, y1)\<close> and \<open>embedding\<close> a vector, both of \<^verbatim>\<open>float32\<close>
  numbers; \<open>bbox\<close> is absent on a face built by
  \<^verbatim>\<open>Face(embedding=..., gender=..., age=...)\<close>, where \<^verbatim>\<open>face.bbox\<close> is \<^verbatim>\<open>None\<close>.
\<close>

record face =
  bbox :: "(real \<times> real \<times> real \<times> real) option"
  embedding :: "real list"
  gender :: int
  age :: int

section \<open>Similarity scorer\<close>

text \<open>
  \<^verbatim>\<open>sklearn.metrics.pairwise.cosine_similarity\<close> is library code; the model follows
  what the library does on two \<^verbatim>\<open>float32\<close> arrays of shape \<^verbatim>\<open>(1, n)\<close>, with every sum
  accumulated in index order and every operation rounded to \<^verbatim>\<open>float32\<close>.

  \<open>dot\<close> is the sum of the products (\<^verbatim>\<open>np.einsum("ij,ij->i", X, X)\<close> in \<^verbatim>\<open>row_norms\<close>
  and the matrix product \<^verbatim>\<open>X_normalized @ Y_normalized.T\<close>).
\<close>

definition dot :: "real list \<Rightarrow> real list \<Rightarrow> real" where
  "dot a b = f32_sum (map2 (\<lambda>x y. fl32 (x * y)) a b)"

definition norm_l2 :: "real list \<Rightarrow> real" where
  "norm_l2 a = fl32 (sqrt (dot a a))"

text \<open>
  \<^verbatim>\<open>sklearn.preprocessing.normalize\<close> (L2, one row): the row is divided by its norm,
  after \<^verbatim>\<open>_handle_zeros_in_scale\<close> has replaced a norm below
  \<^verbatim>\<open>10 * np.finfo(np.float32).eps\<close> by 1 (releases of the library before 1.0 replace a
  norm of exactly zero only).
\<close>

definition handle_zeros_in_scale :: "real \<Rightarrow> real" where
  "handle_zeros_in_scale n = (if n < 10 * (1 / 2 ^ 23) then 1 else n)"

definition l2_normalize :: "real list \<Rightarrow> real list" where
  "l2_normalize a =
     (let norms = handle_zeros_in_scale (norm_l2 a) in map (\<lambda>x. fl32 (x / norms)) a)"

text \<open>
  The value of \<^verbatim>\<open>cosine_similarity(vec1, vec2)[0, 0]\<close>. The library raises
  \<^verbatim>\<open>ValueError\<close> when the two rows differ in length and when a row has no feature.
\<close>

definition cosine_similarity :: "real list \<Rightarrow> real list \<Rightarrow> error + real" where
  "cosine_similarity vec1 vec2 =
     (if vec1 = [] \<or> vec2 = [] \<or> length vec1 \<noteq> length vec2 then Inl ValueError
      else Inr (dot (l2_normalize vec1) (l2_normalize vec2)))"

text \<open>\<^verbatim>\<open>cosine_similarity_face\<close>: \<^verbatim>\<open>max(0, similarity[0, 0])\<close>.\<close>

definition cosine_similarity_face :: "face \<Rightarrow> face \<Rightarrow> error + real" where
  "cosine_similarity_face face1 face2 =
     (case cosine_similarity (embedding face1) (embedding face2) of
        Inl e \<Rightarrow> Inl e
      | Inr similarity \<Rightarrow> Inr (max 0 similarity))"

section \<open>Identity blender\<close>

text \<open>
  \<^verbatim>\<open>np.mean(embeddings, axis=0)\<close> for a list of \<^verbatim>\<open>float32\<close> vectors of one length:
  component \<open>j\<close> of the result is the \<^verbatim>\<open>float32\<close> sum of the components \<open>j\<close>, from
  the first vector to the last, divided in \<^verbatim>\<open>float32\<close> by the number of vectors.
\<close>

definition np_mean_axis0 :: "real list list \<Rightarrow> real list" where
  "np_mean_axis0 embeddings =
     (case embeddings of
        [] \<Rightarrow> []
      | e0 # _ \<Rightarrow>
          map (\<lambda>j. fl32 (f32_sum (map (\<lambda>e. e ! j) embeddings) / real (length embeddings)))
            [0..<length e0])"

text \<open>
  \<^verbatim>\<open>blend_faces\<close>. \<open>Inr None\<close> is the \<^verbatim>\<open>return None\<close> of the empty input; the shape
  check raises \<^verbatim>\<open>ValueError\<close>; the \<^verbatim>\<open>assert\<close> raises \<^verbatim>\<open>AssertionError\<close> when more than
  one face is given and \<^verbatim>\<open>np.array_equal(blended.embedding, faces[0].embedding)\<close>.
\<close>

definition blend_faces :: "face list \<Rightarrow> error + face option" where
  "blend_faces faces =
     (let embeddings = map embedding faces in
      case faces of
        [] \<Rightarrow> Inr None
      | face0 # _ \<Rightarrow>
          if \<exists>e \<in> set embeddings. length e \<noteq> length (embedding face0) then Inl ValueError
          else
            let blended_embedding = np_mean_axis0 embeddings;
                blended = \<lparr>bbox = None, embedding = blended_embedding,
                           gender = gender face0, age = age face0\<rparr>
            in if length faces > 1 \<and> embedding blended = embedding face0
               then Inl AssertionError
               else Inr (Some blended))"

section \<open>Face locator\<close>

text \<open>
  The collaborators of \<^verbatim>\<open>swapper.py\<close> that are not part of the repository, as
  parameters. \<open>'img\<close> is the type of images (a PIL image or the numpy array of one).
  \<^item> \<open>detection_threshold\<close>: \<^verbatim>\<open>opts.data.get("faceswaplab_detection_threshold", 0.5)\<close>;
  \<^item> \<open>face_analyser_get img det_size det_thresh\<close>: the faces that the (loaded, copied)
    analysis model returns for \<^verbatim>\<open>img\<close> after \<^verbatim>\<open>prepare(det_thresh, det_size)\<close>;
  \<^item> \<open>check_against_nsfw\<close>: the content check of \<^verbatim>\<open>imgutils\<close>;
  \<^item> \<open>face_swapper_get model img target_face source_face upscale\<close>: the method
    \<^verbatim>\<open>get\<close> of the swapper loaded for \<^verbatim>\<open>model\<close>; it can raise;
  \<^item> \<open>rgb2bgr\<close>, \<open>bgr2rgb\<close>: the \<^verbatim>\<open>cv2.cvtColor\<close> conversions between PIL and cv2 images;
  \<^item> \<open>format_info\<close>: the text of the f-string
    \<^verbatim>\<open>f"{info}, similarity = {result.similarity}, ref_similarity = {result.ref_similarity}"\<close>.
  Both models are taken as loaded: a model that fails to load raises
  \<^verbatim>\<open>FaceModelException\<close> before anything described here happens.
\<close>

type_synonym similarity_dict = "(nat \<times> real) list"

record 'img env =
  detection_threshold :: real
  face_analyser_get :: "'img \<Rightarrow> int \<times> int \<Rightarrow> real \<Rightarrow> face list"
  check_against_nsfw :: "'img \<Rightarrow> bool"
  face_swapper_get :: "string \<Rightarrow> 'img \<Rightarrow> face \<Rightarrow> face \<Rightarrow> bool \<Rightarrow> error + 'img"
  rgb2bgr :: "'img \<Rightarrow> 'img"
  bgr2rgb :: "'img \<Rightarrow> 'img"
  format_info :: "string option \<Rightarrow> similarity_dict \<Rightarrow> similarity_dict \<Rightarrow> string"

text \<open>The two sort keys of \<^verbatim>\<open>get_faces\<close>, on a bounding box.\<close>

fun bbox_area :: "real \<times> real \<times> real \<times> real \<Rightarrow> real" where
  "bbox_area (x0, y0, x1, y1) = fl32 (fl32 (x1 - x0) * fl32 (y1 - y0))"

fun bbox_left :: "real \<times> real \<times> real \<times> real \<Rightarrow> real" where
  "bbox_left (x0, y0, x1, y1) = x0"

text \<open>
  The \<^verbatim>\<open>try\<close> block of \<^verbatim>\<open>get_faces\<close>. The key of every face is computed first; a face
  without a bounding box makes the key function raise, and the \<^verbatim>\<open>except\<close> returns the
  empty list. \<^verbatim>\<open>sorted\<close> is stable; with \<^verbatim>\<open>reverse=True\<close> it sorts descending and
  still keeps faces of equal key in their order, which is the stable ascending sort on the
  negated key.
\<close>

definition sorted_faces :: "bool \<Rightarrow> face list \<Rightarrow> face list" where
  "sorted_faces sort_by_face_size face =
     (case those (map bbox face) of
        None \<Rightarrow> []
      | Some boxes \<Rightarrow>
          if sort_by_face_size
          then map snd (sort_key (\<lambda>(b, x). - bbox_area b) (zip boxes face))
          else map snd (sort_key (\<lambda>(b, x). bbox_left b) (zip boxes face)))"

text \<open>
  \<^verbatim>\<open>get_faces\<close>. The recursive call passes \<^verbatim>\<open>det_size\<close> and \<^verbatim>\<open>det_thresh\<close> only, so
  \<^verbatim>\<open>sort_by_face_size\<close> takes its default \<^verbatim>\<open>False\<close> there.
\<close>

function get_faces :: "'img env \<Rightarrow> 'img \<Rightarrow> int \<times> int \<Rightarrow> real option \<Rightarrow> bool \<Rightarrow> face list" where
  "get_faces env img_data det_size det_thresh sort_by_face_size =
     (let thresh = (case det_thresh of None \<Rightarrow> detection_threshold env | Some t \<Rightarrow> t);
          face = face_analyser_get env img_data det_size thresh
      in if face = [] \<and> fst det_size > 320 \<and> snd det_size > 320
         then get_faces env img_data (fst det_size div 2, snd det_size div 2) (Some thresh) False
         else sorted_faces sort_by_face_size face)"
  by pat_completeness auto
termination
  by (relation "measure (\<lambda>(env, img_data, det_size, det_thresh, s). nat (fst det_size))") auto

section \<open>Swapping the faces of one image\<close>

text \<open>
  \<^verbatim>\<open>ImageResult\<close>. The two dictionaries keep their insertion order; \<open>AList.update\<close> is
  the assignment \<^verbatim>\<open>d[i] = v\<close>, \<open>map snd\<close> is \<^verbatim>\<open>d.values()\<close>, and a dictionary is
  truthy when it is not \<open>[]\<close>.
\<close>

record 'img ImageResult =
  image :: 'img
  similarity :: similarity_dict
  ref_similarity :: similarity_dict

text \<open>
  The loop \<^verbatim>\<open>for i, swapped_face in enumerate(target_faces)\<close> of \<^verbatim>\<open>swap_face\<close>: the
  image threads through the calls of the swapper, and an exception of the swapper ends it.
\<close>

fun swap_loop ::
  "'img env \<Rightarrow> string \<Rightarrow> int set \<Rightarrow> face \<Rightarrow> bool \<Rightarrow> (nat \<times> face) list \<Rightarrow> 'img \<Rightarrow> error + 'img"
where
  "swap_loop env model faces_index source_face upscaled_swapper [] result = Inr result"
| "swap_loop env model faces_index source_face upscaled_swapper ((i, swapped_face) # rest) result =
     (if int i \<in> faces_index
      then (case face_swapper_get env model result swapped_face source_face upscaled_swapper of
              Inl e \<Rightarrow> Inl e
            | Inr result' \<Rightarrow>
                swap_loop env model faces_index source_face upscaled_swapper rest result')
      else swap_loop env model faces_index source_face upscaled_swapper rest result)"

text \<open>
  The loop \<^verbatim>\<open>for i, swapped_face in enumerate(result_faces)\<close>; \<open>n\<close> is
  \<^verbatim>\<open>len(target_faces)\<close>. A reference face that is \<^verbatim>\<open>None\<close> has no \<^verbatim>\<open>embedding\<close>.
\<close>

fun similarity_loop ::
  "int set \<Rightarrow> nat \<Rightarrow> face option \<Rightarrow> face \<Rightarrow> (nat \<times> face) list \<Rightarrow>
   similarity_dict \<times> similarity_dict \<Rightarrow> error + similarity_dict \<times> similarity_dict"
where
  "similarity_loop faces_index n reference_face source_face [] dicts = Inr dicts"
| "similarity_loop faces_index n reference_face source_face ((i, swapped_face) # rest) (sim, ref) =
     (if int i \<in> faces_index \<and> i < n
      then (case cosine_similarity_face source_face swapped_face of
              Inl e \<Rightarrow> Inl e
            | Inr s \<Rightarrow>
                (case reference_face of
                   None \<Rightarrow> Inl AttributeError
                 | Some rf \<Rightarrow>
                     (case cosine_similarity_face rf swapped_face of
                        Inl e \<Rightarrow> Inl e
                      | Inr r \<Rightarrow>
                          similarity_loop faces_index n reference_face source_face rest
                            (AList.update i s sim, AList.update i r ref))))
      else similarity_loop faces_index n reference_face source_face rest (sim, ref))"

text \<open>
  \<^verbatim>\<open>swap_face\<close>. \<^verbatim>\<open>source_face["gender"]\<close> is read before the test
  \<^verbatim>\<open>source_face is not None\<close>, so a source face that is \<^verbatim>\<open>None\<close> raises \<^verbatim>\<open>TypeError\<close>;
  every exception is logged and raised again.
\<close>

definition swap_face ::
  "'img env \<Rightarrow> face option \<Rightarrow> face option \<Rightarrow> 'img \<Rightarrow> string \<Rightarrow> int set \<Rightarrow> bool \<Rightarrow> bool \<Rightarrow>
   bool \<Rightarrow> bool \<Rightarrow> error + 'img ImageResult"
where
  "swap_face env reference_face source_face target_img model faces_index same_gender
     upscaled_swapper compute_similarity sort_by_face_size =
     (case source_face of
        None \<Rightarrow> Inl TypeError
      | Some src \<Rightarrow>
          let target_bgr = rgb2bgr env target_img;
              target_faces0 = get_faces env target_bgr (640, 640) None sort_by_face_size;
              target_faces =
                (if same_gender then filter (\<lambda>x. gender x = gender src) target_faces0
                 else target_faces0)
          in case swap_loop env model faces_index src upscaled_swapper
                    (enumerate 0 target_faces) target_bgr of
               Inl e \<Rightarrow> Inl e
             | Inr result \<Rightarrow>
                 let result_image = bgr2rgb env result in
                 if compute_similarity
                 then
                   let result_faces0 =
                         get_faces env (rgb2bgr env result_image) (640, 640) None sort_by_face_size;
                       result_faces =
                         (if same_gender then filter (\<lambda>x. gender x = gender src) result_faces0
                          else result_faces0)
                   in case similarity_loop faces_index (length target_faces) reference_face src
                             (enumerate 0 result_faces) ([], []) of
                        Inl e \<Rightarrow> Inl e
                      | Inr (sim, ref) \<Rightarrow>
                          Inr \<lparr>image = result_image, similarity = sim, ref_similarity = ref\<rparr>
                 else Inr \<lparr>image = result_image, similarity = [], ref_similarity = []\<rparr>)"

section \<open>Unit pipeline\<close>

text \<open>
  Modelled from the spec: the class \<^verbatim>\<open>FaceSwapUnitSettings\<close>
  (\<^verbatim>\<open>scripts/faceswaplab_ui/faceswaplab_unit_settings.py\<close>) is not among the sources. The
  record has the attributes that \<^verbatim>\<open>process_image_unit\<close> reads, with the types of the
  spec's \<^emph>\<open>SwapUnit\<close>: the blended face and the reference face are optional. The
  attribute \<^verbatim>\<open>blend_faces\<close> is \<open>blend_faces_flag\<close> here.
\<close>

record unit_settings =
  enable :: bool
  faces :: "face list"
  blended_faces :: "face option"
  reference_face :: "face option"
  faces_index :: "int set"
  same_gender :: bool
  blend_faces_flag :: bool
  sort_by_size :: bool
  check_similarity :: bool
  compute_similarity :: bool
  min_sim :: real
  min_ref_sim :: real

text \<open>
  The choice of \<^verbatim>\<open>src_faces\<close> in \<^verbatim>\<open>process_image_unit\<close>. In the blend branch the
  \<^verbatim>\<open>assert\<close> reads \<^verbatim>\<open>unit.reference_face.embedding\<close> and \<^verbatim>\<open>src_faces[0].embedding\<close>
  when the unit has more than one face.
\<close>

definition select_src_faces :: "unit_settings \<Rightarrow> bool \<Rightarrow> error + face option list" where
  "select_src_faces unit force_blend =
     (if \<not> blend_faces_flag unit \<and> \<not> force_blend then Inr (map Some (faces unit))
      else
        let src_faces = [blended_faces unit] in
        if length (faces unit) > 1
        then (case (reference_face unit, blended_faces unit) of
                (Some r, Some b) \<Rightarrow>
                  if embedding r = embedding b then Inl AssertionError else Inr src_faces
              | _ \<Rightarrow> Inl AttributeError)
        else Inr src_faces)"

text \<open>The call of \<^verbatim>\<open>swap_face\<close> in the loop over \<^verbatim>\<open>src_faces\<close>.\<close>

definition unit_swap_face ::
  "'img env \<Rightarrow> string \<Rightarrow> unit_settings \<Rightarrow> 'img \<Rightarrow> bool \<Rightarrow> face option \<Rightarrow> error + 'img ImageResult"
where
  "unit_swap_face env model unit img upscaled_swapper src_face =
     (let reference = (case reference_face unit of Some r \<Rightarrow> Some r | None \<Rightarrow> src_face)
      in swap_face env reference src_face img model (faces_index unit) (same_gender unit)
           upscaled_swapper (compute_similarity unit) (sort_by_size unit))"

text \<open>
  The condition under which a result is appended. In the source both lists given to
  \<^verbatim>\<open>all\<close> start with \<^verbatim>\<open>result.similarity.values() != 0\<close>, which compares a view of a
  dictionary with a number and is always true.
\<close>

definition accepted :: "unit_settings \<Rightarrow> 'img ImageResult \<Rightarrow> bool" where
  "accepted unit result =
     ((\<not> check_similarity unit)
      \<or> (similarity result \<noteq> []
         \<and> list_all (\<lambda>b. b) (True # map (\<lambda>x. x \<ge> min_sim unit) (map snd (similarity result)))
         \<and> list_all (\<lambda>b. b)
             (True # map (\<lambda>x. x \<ge> min_ref_sim unit) (map snd (ref_similarity result)))))"

definition result_entry ::
  "'img env \<Rightarrow> string option \<Rightarrow> 'img ImageResult \<Rightarrow> 'img \<times> string option" where
  "result_entry env info result =
     (image result, Some (format_info env info (similarity result) (ref_similarity result)))"

fun unit_loop ::
  "'img env \<Rightarrow> string \<Rightarrow> unit_settings \<Rightarrow> 'img \<Rightarrow> string option \<Rightarrow> bool \<Rightarrow> face option list \<Rightarrow>
   ('img \<times> string option) list \<Rightarrow> error + ('img \<times> string option) list"
where
  "unit_loop env model unit img info upscaled_swapper [] results = Inr results"
| "unit_loop env model unit img info upscaled_swapper (src_face # rest) results =
     (case unit_swap_face env model unit img upscaled_swapper src_face of
        Inl e \<Rightarrow> Inl e
      | Inr result \<Rightarrow>
          if accepted unit result
          then unit_loop env model unit img info upscaled_swapper rest
                 (results @ [result_entry env info result])
          else unit_loop env model unit img info upscaled_swapper rest results)"

definition process_image_unit ::
  "'img env \<Rightarrow> string \<Rightarrow> unit_settings \<Rightarrow> 'img \<Rightarrow> string option \<Rightarrow> bool \<Rightarrow> bool \<Rightarrow>
   error + ('img \<times> string option) list"
where
  "process_image_unit env model unit img info upscaled_swapper force_blend =
     (if enable unit
      then if check_against_nsfw env img then Inr [(img, info)]
           else (case select_src_faces unit force_blend of
                   Inl e \<Rightarrow> Inl e
                 | Inr src_faces \<Rightarrow>
                     unit_loop env model unit img info upscaled_swapper src_faces [])
      else Inr [])"

text \<open>
  The loop over \<^verbatim>\<open>images\<close> in \<^verbatim>\<open>process_images_units\<close>; \<open>rest\<close> is the recursive call
  on \<^verbatim>\<open>units[1:]\<close> and \<open>step\<close> the call of \<^verbatim>\<open>process_image_unit\<close> with
  \<^verbatim>\<open>units[0]\<close>. \<^verbatim>\<open>if nexts:\<close> holds for a list that is neither \<^verbatim>\<open>None\<close> nor empty.
\<close>

fun images_loop ::
  "(('img \<times> string option) list \<Rightarrow> error + ('img \<times> string option) list option) \<Rightarrow>
   ('img \<Rightarrow> string option \<Rightarrow> error + ('img \<times> string option) list) \<Rightarrow>
   ('img \<times> string option) list \<Rightarrow> ('img \<times> string option) list \<Rightarrow>
   error + ('img \<times> string option) list"
where
  "images_loop rest step [] processed_images = Inr processed_images"
| "images_loop rest step ((img, info) # remaining) processed_images =
     (case step img info of
        Inl e \<Rightarrow> Inl e
      | Inr swapped \<Rightarrow>
          (case rest swapped of
             Inl e \<Rightarrow> Inl e
           | Inr nexts \<Rightarrow>
               (case nexts of
                  Some (n # ns) \<Rightarrow> images_loop rest step remaining (processed_images @ n # ns)
                | _ \<Rightarrow> images_loop rest step remaining (processed_images @ swapped))))"

text \<open>
  \<^verbatim>\<open>process_images_units\<close>. \<open>Inr None\<close> is the \<^verbatim>\<open>return None\<close> of the empty unit list.
\<close>

fun process_images_units ::
  "'img env \<Rightarrow> string \<Rightarrow> unit_settings list \<Rightarrow> ('img \<times> string option) list \<Rightarrow> bool \<Rightarrow> bool \<Rightarrow>
   error + ('img \<times> string option) list option"
where
  "process_images_units env model [] images upscaled_swapper force_blend = Inr None"
| "process_images_units env model (unit # units) images upscaled_swapper force_blend =
     (case images_loop
             (\<lambda>swapped. process_images_units env model units swapped upscaled_swapper force_blend)
             (\<lambda>img info. process_image_unit env model unit img info upscaled_swapper force_blend)
             images [] of
        Inl e \<Rightarrow> Inl e
      | Inr processed_images \<Rightarrow> Inr (Some processed_images))"

section \<open>Warp compositor: pasting the generated patch back\<close>

text \<open>
  The last part of \<^verbatim>\<open>UpscaledINSwapper.get\<close> with \<^verbatim>\<open>paste_back=True\<close>, from
  \<^verbatim>\<open>IM = cv2.invertAffineTransform(M)\<close> to \<^verbatim>\<open>return fake_merged\<close>. Its inputs are what
  the first part has computed: the transform \<^verbatim>\<open>M\<close>, the shape of the crop \<^verbatim>\<open>aimg\<close>, the
  generated patch \<^verbatim>\<open>bgr_fake\<close> and the difference \<^verbatim>\<open>fake_diff\<close>.

  An array of shape \<open>(h, w)\<close> is a function of the row and the column, an array of shape
  \<open>(h, w, 3)\<close> a function of row, column and channel; the shape is passed beside it. The
  functions of OpenCV are parameters: \<open>warpAffine_mask src src_shape M dsize\<close> is
  \<^verbatim>\<open>cv2.warpAffine(src, M, dsize, borderValue=0.0)\<close>, \<open>erode src k\<close> is \<^verbatim>\<open>cv2.erode\<close> with
  the kernel \<^verbatim>\<open>np.ones((k, k), np.uint8)\<close>, \<open>GaussianBlur src ksize\<close> is
  \<^verbatim>\<open>cv2.GaussianBlur(src, ksize, 0)\<close> for a size \<open>ksize\<close> of positive numbers; for a
  size \<open>2 * k + 1\<close> with a negative \<open>k\<close> OpenCV raises \<^verbatim>\<open>cv2.error\<close>, which is
  \<open>CvError\<close> in the functions below.
\<close>

type_synonym mask = "nat \<Rightarrow> nat \<Rightarrow> real"
type_synonym bgr_image = "nat \<Rightarrow> nat \<Rightarrow> nat \<Rightarrow> 8 word"

record 'm cv2 =
  invertAffineTransform :: "'m \<Rightarrow> 'm"
  warpAffine_image :: "bgr_image \<Rightarrow> nat \<times> nat \<Rightarrow> 'm \<Rightarrow> nat \<times> nat \<Rightarrow> bgr_image"
  warpAffine_mask :: "mask \<Rightarrow> nat \<times> nat \<Rightarrow> 'm \<Rightarrow> nat \<times> nat \<Rightarrow> mask"
  erode :: "mask \<Rightarrow> int \<Rightarrow> mask"
  dilate :: "mask \<Rightarrow> int \<Rightarrow> mask"
  GaussianBlur :: "mask \<Rightarrow> int \<times> int \<Rightarrow> mask"

text \<open>\<^verbatim>\<open>int(x)\<close> on a float: truncation towards zero.\<close>

definition py_int :: "real \<Rightarrow> int" where
  "py_int x = (if 0 \<le> x then \<lfloor>x\<rfloor> else \<lceil>x\<rceil>)"

text \<open>
  \<^verbatim>\<open>astype(np.float32)\<close> on a \<^verbatim>\<open>uint8\<close> (exact), and \<^verbatim>\<open>astype(np.uint8)\<close> on a
  \<^verbatim>\<open>float32\<close>: the fraction is dropped; a value outside \<open>0..255\<close>, which numpy leaves to
  the platform, wraps.
\<close>

definition astype_float32 :: "8 word \<Rightarrow> real" where
  "astype_float32 p = real (unat p)"

definition astype_uint8 :: "real \<Rightarrow> 8 word" where
  "astype_uint8 x = word_of_int (py_int x)"

text \<open>\<^verbatim>\<open>np.where(img_mask == 255)\<close>: the (row, column) pairs, in row-major order.\<close>

definition np_where_255 :: "nat \<times> nat \<Rightarrow> mask \<Rightarrow> (nat \<times> nat) list" where
  "np_where_255 shape m =
     concat (map (\<lambda>i. map (\<lambda>j. (i, j)) (filter (\<lambda>j. m i j = 255) [0..<snd shape]))
               [0..<fst shape])"

text \<open>
  The variable \<^verbatim>\<open>img_white\<close>/\<^verbatim>\<open>img_mask\<close> up to \<^verbatim>\<open>img_mask /= 255\<close>, a division of
  \<^verbatim>\<open>float32\<close> numbers. \<^verbatim>\<open>np.max\<close> of an empty array raises \<^verbatim>\<open>ValueError\<close>, and so
  does \<^verbatim>\<open>np.ones\<close> with a negative size; the blur comes after the erosion. The kernel
  sizes are computed with Python
  floats: \<^verbatim>\<open>np.sqrt\<close> of the integer product, and the products with
  \<open>erosion_factor\<close>, are rounded by \<open>fl64\<close> before \<^verbatim>\<open>int\<close> truncates them.
\<close>

definition final_img_mask ::
  "'m cv2 \<Rightarrow> real \<Rightarrow> 'm \<Rightarrow> nat \<times> nat \<Rightarrow> nat \<times> nat \<Rightarrow> error + mask" where
  "final_img_mask cv erosion_factor IM aimg_shape target_shape =
     (let img_white = (\<lambda>i j. 255);
          img_white =
            warpAffine_mask cv img_white aimg_shape IM (snd target_shape, fst target_shape);
          img_white = (\<lambda>i j. if img_white i j > 20 then 255 else img_white i j);
          img_mask = img_white;
          inds = np_where_255 target_shape img_mask
      in if inds = [] then Inl ValueError
         else
           let mask_h = int (Max (set (map fst inds))) - int (Min (set (map fst inds)));
               mask_w = int (Max (set (map snd inds))) - int (Min (set (map snd inds)));
               mask_size = py_int (fl64 (sqrt (fl64 (real_of_int (mask_h * mask_w)))));
               k = max (py_int (fl64 (real_of_int (mask_size div 10) * erosion_factor)))
                       (py_int (fl64 (10 * erosion_factor)))
           in if k < 0 then Inl ValueError
              else
                let img_mask = erode cv img_mask k;
                    k = max (py_int (fl64 (real_of_int (mask_size div 20) * erosion_factor)))
                            (py_int (fl64 (5 * erosion_factor)))
                in if k < 0 then Inl CvError
                   else
                     let img_mask = GaussianBlur cv img_mask (2 * k + 1, 2 * k + 1)
                     in Inr (\<lambda>i j. fl32 (img_mask i j / 255)))"

text \<open>
  The variable \<^verbatim>\<open>fake_diff\<close> up to \<^verbatim>\<open>fake_diff /= 255\<close>. The size of its blur is
  \<^verbatim>\<open>int(5*erosion_factor)\<close>, which is negative for an \<open>erosion_factor\<close> of \<open>- 1 / 5\<close> or
  less.
\<close>

definition final_fake_diff ::
  "'m cv2 \<Rightarrow> real \<Rightarrow> real \<Rightarrow> 'm \<Rightarrow> nat \<times> nat \<Rightarrow> nat \<times> nat \<Rightarrow> mask \<Rightarrow> error + mask" where
  "final_fake_diff cv fthresh erosion_factor IM aimg_shape target_shape fake_diff =
     (let fake_diff =
            warpAffine_mask cv fake_diff aimg_shape IM (snd target_shape, fst target_shape);
          fake_diff = (\<lambda>i j. if fake_diff i j < fthresh then 0 else fake_diff i j);
          fake_diff = (\<lambda>i j. if fake_diff i j \<ge> fthresh then 255 else fake_diff i j);
          fake_diff = dilate cv fake_diff 2;
          k = py_int (fl64 (5 * erosion_factor))
      in if k < 0 then Inl CvError
         else
           let fake_diff = GaussianBlur cv fake_diff (2 * k + 1, 2 * k + 1)
           in Inr (\<lambda>i j. fl32 (fake_diff i j / 255)))"

text \<open>
  The merge. \<open>fthresh\<close> and \<open>erosion_factor\<close> are the options
  \<^verbatim>\<open>faceswaplab_upscaled_swapper_fthresh\<close> and \<^verbatim>\<open>faceswaplab_upscaled_swapper_erosion\<close>.
  \<^verbatim>\<open>img_mask * bgr_fake + (1-img_mask) * target_img.astype(np.float32)\<close> is computed in
  \<^verbatim>\<open>float32\<close>: two products, one difference and one sum, each rounded.
\<close>

definition get_paste_back ::
  "'m cv2 \<Rightarrow> real \<Rightarrow> real \<Rightarrow> 'm \<Rightarrow> nat \<times> nat \<Rightarrow> bgr_image \<Rightarrow> mask \<Rightarrow> nat \<times> nat \<Rightarrow> bgr_image \<Rightarrow>
   error + bgr_image" where
  "get_paste_back cv fthresh erosion_factor M aimg_shape bgr_fake fake_diff target_shape
     target_img =
     (let IM = invertAffineTransform cv M;
          bgr_fake =
            warpAffine_image cv bgr_fake aimg_shape IM (snd target_shape, fst target_shape)
      in case final_img_mask cv erosion_factor IM aimg_shape target_shape of
           Inl e \<Rightarrow> Inl e
         | Inr img_mask \<Rightarrow>
             (case final_fake_diff cv fthresh erosion_factor IM aimg_shape target_shape
                     fake_diff of
                Inl e \<Rightarrow> Inl e
              | Inr fake_diff \<Rightarrow>
                  let fake_merged =
                        (\<lambda>i j c.
                           fl32 (fl32 (img_mask i j * astype_float32 (bgr_fake i j c))
                                 + fl32 (fl32 (1 - img_mask i j)
                                         * astype_float32 (target_img i j c))))
                  in Inr (\<lambda>i j c. astype_uint8 (fake_merged i j c))))"

section \<open>Example inputs\<close>

text \<open>
  Faces, a detector stub, an environment over images numbered by \<^typ>\<open>nat\<close> (the swapper
  stub returns the next number) and a unit, for the concrete evaluations below.
\<close>

definition ex_face :: "real list \<Rightarrow> face" where
  "ex_face e = \<lparr>bbox = None, embedding = e, gender = 0, age = 30\<rparr>"

definition face_at :: "real \<times> real \<times> real \<times> real \<Rightarrow> real list \<Rightarrow> face" where
  "face_at box e = \<lparr>bbox = Some box, embedding = e, gender = 0, age = 30\<rparr>"

definition small_left :: face where
  "small_left = face_at (10, 0, 20, 10) [1, 0]"

definition big_right :: face where
  "big_right = face_at (30, 0, 50, 20) [0, 1]"

definition detect_below :: "int \<Rightarrow> face list \<Rightarrow> int \<times> int \<Rightarrow> face list" where
  "detect_below n found det_size =
     (if fst det_size \<le> n \<and> snd det_size \<le> n then found else [])"

definition both_faces :: "int \<times> int \<Rightarrow> face list" where
  "both_faces = detect_below 640 [big_right, small_left]"

definition stub_env :: "(int \<times> int \<Rightarrow> face list) \<Rightarrow> nat env" where
  "stub_env detect =
     \<lparr>detection_threshold = 1 / 2,
      face_analyser_get = (\<lambda>img det_size det_thresh. detect det_size),
      check_against_nsfw = (\<lambda>img. False),
      face_swapper_get = (\<lambda>model img target_face source_face upscale. Inr (Suc img)),
      rgb2bgr = (\<lambda>img. img),
      bgr2rgb = (\<lambda>img. img),
      format_info = (\<lambda>info sim ref. ''similarity'')\<rparr>"

definition src_a :: face where
  "src_a = ex_face [1, 0]"

definition src_b :: face where
  "src_b = ex_face [0, 1]"

definition src_ab :: face where
  "src_ab = ex_face [1 / 2, 1 / 2]"

definition ex_unit :: unit_settings where
  "ex_unit =
     \<lparr>enable = True, faces = [src_a, src_b], blended_faces = Some src_ab,
      reference_face = Some src_a, faces_index = {0}, same_gender = False,
      blend_faces_flag = False, sort_by_size = False, check_similarity = False,
      compute_similarity = True, min_sim = 1 / 2, min_ref_sim = 0\<rparr>"

definition ex_cv :: "unit cv2" where
  "ex_cv =
     \<lparr>invertAffineTransform = (\<lambda>M. M),
      warpAffine_image = (\<lambda>src src_shape M dsize. src),
      warpAffine_mask =
        (\<lambda>src src_shape M dsize i j. if j = 0 then src i j else if j = 1 then 0 else 1 / 2),
      erode = (\<lambda>src k. src),
      dilate = (\<lambda>src k. src),
      GaussianBlur = (\<lambda>src ksize. src)\<rparr>"

definition ex_fake :: bgr_image where
  "ex_fake = (\<lambda>i j c. 200)"

definition ex_target :: bgr_image where
  "ex_target = (\<lambda>i j c. if j = 2 then 200 else 7)"

section \<open>Properties of the rounding\<close>

declare get_faces.simps [simp del]

lemma round_half_even_of_int [simp]: "round_half_even (of_int k) = k"
  by (simp add: round_half_even_def)

lemma round_half_even_nearest:
  assumes "real_of_int k - 1 / 2 < y" and "y < real_of_int k + 1 / 2"
  shows "round_half_even y = k"
proof -
  have "\<lfloor>y\<rfloor> = k \<or> \<lfloor>y\<rfloor> = k - 1" using assms by linarith
  then show ?thesis
  proof
    assume f: "\<lfloor>y\<rfloor> = k"
    then have "y - real_of_int \<lfloor>y\<rfloor> < 1 / 2" using assms by simp
    then show ?thesis by (simp add: round_half_even_def Let_def f)
  next
    assume f: "\<lfloor>y\<rfloor> = k - 1"
    then have "1 / 2 < y - real_of_int \<lfloor>y\<rfloor>" using assms by simp
    then show ?thesis by (simp add: round_half_even_def Let_def f)
  qed
qed

lemma fl_zero [simp]: "fl p emin 0 = 0"
  by (simp add: fl_def)

lemma floor_log2_binade:
  assumes "2 powi e \<le> \<bar>x\<bar>" and "\<bar>x\<bar> < 2 powi (e + 1)"
  shows "\<lfloor>log 2 \<bar>x\<bar>\<rfloor> = e"
proof -
  have pos: "0 < \<bar>x\<bar>"
    using assms(1) by (smt (verit) zero_less_power_int)
  have "(2::real) powr real_of_int e = 2 powi e"
    and "(2::real) powr (real_of_int e + 1) = 2 powi (e + 1)"
    using powr_real_of_int' [of "2::real" e] powr_real_of_int' [of "2::real" "e + 1"]
    by simp_all
  then show ?thesis
    using assms pos by (simp add: floor_log_eq_powr_iff)
qed

text \<open>The rounding of a number whose binade is known.\<close>

lemma fl_binade:
  assumes "2 powi e \<le> \<bar>x\<bar>" and "\<bar>x\<bar> < 2 powi (e + 1)" and "emin \<le> e"
  shows "fl p emin x =
         real_of_int (round_half_even (x / 2 powi (e - int p + 1))) * 2 powi (e - int p + 1)"
proof -
  have "x \<noteq> 0" using assms(1) by (smt (verit) zero_less_power_int abs_zero)
  moreover have "max \<lfloor>log 2 \<bar>x\<bar>\<rfloor> emin = e"
    using floor_log2_binade [OF assms(1,2)] assms(3) by simp
  ultimately show ?thesis by (simp add: fl_def Let_def)
qed

text \<open>A number with a significand of at most \<open>p\<close> bits is not changed.\<close>

lemma fl_representable:
  assumes "x = real_of_int k * 2 powi n" and "\<bar>k\<bar> < 2 ^ p" and "emin - int p + 1 \<le> n"
  shows "fl p emin x = x"
proof (cases "x = 0")
  case True
  then show ?thesis by simp
next
  case False
  define e where "e = max \<lfloor>log 2 \<bar>x\<bar>\<rfloor> emin"
  define m where "m = n - (e - int p + 1)"
  have pos: "0 < \<bar>x\<bar>" using False by simp
  have "\<bar>x\<bar> = real_of_int \<bar>k\<bar> * 2 powi n"
    by (simp add: assms(1) abs_mult)
  also have "\<dots> < 2 ^ p * 2 powi n"
  proof -
    have "real_of_int \<bar>k\<bar> < real_of_int (2 ^ p)"
      using assms(2) by (simp only: of_int_less_iff)
    then have "real_of_int \<bar>k\<bar> < 2 ^ p" by simp
    then show ?thesis by (intro mult_strict_right_mono) simp_all
  qed
  also have "\<dots> = 2 powi (int p + n)"
    by (simp add: power_int_add)
  finally have "\<bar>x\<bar> < 2 powi (int p + n)" .
  then have "log 2 \<bar>x\<bar> < real_of_int (int p + n)"
    using pos powr_real_of_int' [of "2::real" "int p + n"] by (simp add: log_less_iff)
  then have "\<lfloor>log 2 \<bar>x\<bar>\<rfloor> < int p + n" by linarith
  then have m: "0 \<le> m" using assms(3) by (simp add: m_def e_def)
  have "x / 2 powi (e - int p + 1) = real_of_int k * 2 powi m"
    by (simp add: assms(1) m_def power_int_diff)
  also have "\<dots> = real_of_int (k * 2 ^ nat m)"
    using m by (simp add: power_int_def)
  finally have q: "x / 2 powi (e - int p + 1) = real_of_int (k * 2 ^ nat m)" .
  have "fl p emin x =
        real_of_int (round_half_even (x / 2 powi (e - int p + 1))) * 2 powi (e - int p + 1)"
    using False by (simp add: fl_def Let_def e_def)
  also have "\<dots> = (x / 2 powi (e - int p + 1)) * 2 powi (e - int p + 1)"
    unfolding q round_half_even_of_int ..
  also have "\<dots> = x" by simp
  finally show ?thesis .
qed

lemma fl32_zero [simp]: "fl32 0 = 0"
  by (simp add: fl32_def)

lemma fl32_of_int: "\<bar>k\<bar> < 2 ^ 24 \<Longrightarrow> fl32 (real_of_int k) = real_of_int k"
  using fl_representable [of "real_of_int k" k 0 24 "- 126"] by (simp add: fl32_def)

lemma fl32_one [simp]: "fl32 1 = 1"
  using fl32_of_int [of 1] by simp

lemma fl32_numeral [simp]:
  "(numeral n :: int) < 2 ^ 24 \<Longrightarrow> fl32 (numeral n) = numeral n"
  using fl32_of_int [of "numeral n"] by simp

lemma fl32_neg_numeral [simp]:
  "(numeral n :: int) < 2 ^ 24 \<Longrightarrow> fl32 (- numeral n) = - numeral n"
  using fl32_of_int [of "- numeral n"] by simp

lemma fl32_uint8 [simp]: "fl32 (real (unat (p :: 8 word))) = real (unat p)"
proof -
  have "uint p < 2 ^ LENGTH(8)" by (rule unsigned_less)
  moreover have "0 \<le> uint p" by simp
  ultimately have "\<bar>uint p\<bar> < 2 ^ 24" by simp
  from fl32_of_int [OF this] show ?thesis by simp
qed

lemma fl32_half [simp]: "fl32 (1 / 2) = 1 / 2"
  using fl_representable [of "1 / 2" 1 "- 1" 24 "- 126"] by (simp add: fl32_def)

lemma fl64_zero [simp]: "fl64 0 = 0"
  by (simp add: fl64_def)

lemma fl64_of_int: "\<bar>k\<bar> < 2 ^ 53 \<Longrightarrow> fl64 (real_of_int k) = real_of_int k"
  using fl_representable [of "real_of_int k" k 0 53 "- 1022"] by (simp add: fl64_def)

lemma fl64_one [simp]: "fl64 1 = 1"
  using fl64_of_int [of 1] by simp

lemma fl64_numeral [simp]:
  "(numeral n :: int) < 2 ^ 53 \<Longrightarrow> fl64 (numeral n) = numeral n"
  using fl64_of_int [of "numeral n"] by simp

lemma fl64_neg_numeral [simp]:
  "(numeral n :: int) < 2 ^ 53 \<Longrightarrow> fl64 (- numeral n) = - numeral n"
  using fl64_of_int [of "- numeral n"] by simp

lemma fl32_binade:
  assumes "2 powi e \<le> \<bar>x\<bar>" and "\<bar>x\<bar> < 2 powi (e + 1)" and "- 126 \<le> e"
  shows "fl32 x = real_of_int (round_half_even (x / 2 powi (e - 23))) * 2 powi (e - 23)"
  using fl_binade [OF assms, of 24] by (simp add: fl32_def)

lemma fl64_binade:
  assumes "2 powi e \<le> \<bar>x\<bar>" and "\<bar>x\<bar> < 2 powi (e + 1)" and "- 1022 \<le> e"
  shows "fl64 x = real_of_int (round_half_even (x / 2 powi (e - 52))) * 2 powi (e - 52)"
  using fl_binade [OF assms, of 53] by (simp add: fl64_def)

text \<open>A tie goes to the even neighbour: \<open>2 + 2\<^sup>-\<^sup>2\<^sup>3\<close> lies half way between 2 and the next number.\<close>

lemma fl32_tie_example: "fl32 (2 + 1 / 2 ^ 23) = 2"
  using fl32_binade [of 1 "2 + 1 / 2 ^ 23"]
  by (simp add: round_half_even_def Let_def)

text \<open>
  \<^verbatim>\<open>int(10 * 0.3)\<close> is 3: the product of 10 and the double nearest to 0.3 lies below 3
  and is rounded to 3.
\<close>

lemma fl64_example: "py_int (fl64 (10 * (5404319552844595 / 2 ^ 54))) = 3"
proof -
  have "round_half_even (10 * (5404319552844595 / 2 ^ 54) / 2 powi (1 - 52)) = 3 * 2 ^ 51"
    by (rule round_half_even_nearest) simp_all
  with fl64_binade [of 1 "10 * (5404319552844595 / 2 ^ 54)"]
  have "fl64 (10 * (5404319552844595 / 2 ^ 54)) = 3" by simp
  then show ?thesis by (simp add: py_int_def)
qed

text \<open>
  The rounding of a number that lies within half a unit of the \<open>k\<close>-th multiple of the
  unit of its binade, and of a square root with that property.
\<close>

lemma fl32_nearest:
  assumes "2 powi e \<le> \<bar>x\<bar>" and "\<bar>x\<bar> < 2 powi (e + 1)" and "- 126 \<le> e"
    and "real_of_int k - 1 / 2 < x / 2 powi (e - 23)"
    and "x / 2 powi (e - 23) < real_of_int k + 1 / 2"
  shows "fl32 x = real_of_int k * 2 powi (e - 23)"
  using fl32_binade [OF assms(1-3)] round_half_even_nearest [OF assms(4,5)] by simp

lemma fl32_sqrt_nearest:
  assumes "(2 powi e)\<^sup>2 \<le> a" and "a < (2 powi (e + 1))\<^sup>2" and "- 126 \<le> e"
    and "0 < k"
    and "((real_of_int k - 1 / 2) * 2 powi (e - 23))\<^sup>2 < a"
    and "a < ((real_of_int k + 1 / 2) * 2 powi (e - 23))\<^sup>2"
  shows "fl32 (sqrt a) = real_of_int k * 2 powi (e - 23)"
proof (rule fl32_nearest)
  have u: "(0::real) < 2 powi (e - 23)" by simp
  have a: "0 \<le> a" using assms(1) by (smt (verit) zero_le_power2)
  have "2 powi e \<le> sqrt a" using assms(1) by (rule real_le_rsqrt)
  then show "2 powi e \<le> \<bar>sqrt a\<bar>" by simp
  have "sqrt a < 2 powi (e + 1)" using assms(2) by (intro real_less_lsqrt) simp_all
  then show "\<bar>sqrt a\<bar> < 2 powi (e + 1)" using a by simp
  show "- 126 \<le> e" by (rule assms(3))
  have "(real_of_int k - 1 / 2) * 2 powi (e - 23) < sqrt a"
    using assms(5) by (rule real_less_rsqrt)
  then show "real_of_int k - 1 / 2 < sqrt a / 2 powi (e - 23)"
    using u by (simp add: pos_less_divide_eq)
  have "0 \<le> (real_of_int k + 1 / 2) * 2 powi (e - 23)" using assms(4) by simp
  then have "sqrt a < (real_of_int k + 1 / 2) * 2 powi (e - 23)"
    using assms(6) by (intro real_less_lsqrt) simp_all
  then show "sqrt a / 2 powi (e - 23) < real_of_int k + 1 / 2"
    using u by (simp add: pos_divide_less_eq)
qed

section \<open>Properties of the similarity scorer\<close>

lemma f32_sum_zeros: "\<forall>x \<in> set xs. x = 0 \<Longrightarrow> f32_sum xs = 0"
proof -
  have "\<forall>x \<in> set rest. x = 0 \<Longrightarrow> foldl (\<lambda>acc y. fl32 (acc + y)) 0 rest = 0" for rest
    by (induction rest) simp_all
  then show "\<forall>x \<in> set xs. x = 0 \<Longrightarrow> f32_sum xs = 0"
    by (cases xs) (simp_all add: f32_sum_def)
qed

lemma dot_disjoint_support:
  assumes "\<forall>(x, y) \<in> set (zip a b). x = 0 \<or> y = 0"
  shows "dot a b = 0"
  unfolding dot_def using assms by (intro f32_sum_zeros) auto

lemma l2_normalize_disjoint_support:
  assumes "\<forall>(x, y) \<in> set (zip a b). x = 0 \<or> y = 0"
  shows "\<forall>(x, y) \<in> set (zip (l2_normalize a) (l2_normalize b)). x = 0 \<or> y = 0"
  using assms by (auto simp add: l2_normalize_def Let_def zip_map_map)

lemmas scorer_defs = cosine_similarity_face_def cosine_similarity_def l2_normalize_def
  handle_zeros_in_scale_def norm_l2_def dot_def f32_sum_def

lemma dot_pair: "dot [a, b] [c, d] = fl32 (fl32 (a * c) + fl32 (b * d))"
  by (simp add: dot_def f32_sum_def)

text \<open>The self-similarity of the embedding \<open>[2, 3]\<close>, step by step.\<close>

lemma norm_l2_2_3: "norm_l2 [2, 3] = 7561389 / 2 ^ 21"
proof -
  have "dot [2, 3] [2, 3] = 13" by (simp add: dot_pair)
  moreover have "fl32 (sqrt 13) = real_of_int 15122778 * 2 powi (1 - 23)"
    by (rule fl32_sqrt_nearest) (simp_all add: power2_eq_square)
  ultimately show ?thesis by (simp add: norm_l2_def)
qed

lemma l2_normalize_2_3: "l2_normalize [2, 3] = [9306325 / 2 ^ 24, 218117 / 2 ^ 18]"
proof -
  have "fl32 (2 / (7561389 / 2 ^ 21)) = real_of_int 9306325 * 2 powi (- 1 - 23)"
    by (rule fl32_nearest) simp_all
  moreover have "fl32 (3 / (7561389 / 2 ^ 21)) = real_of_int 13959488 * 2 powi (- 1 - 23)"
    by (rule fl32_nearest) simp_all
  ultimately show ?thesis
    by (simp add: l2_normalize_def Let_def norm_l2_2_3 handle_zeros_in_scale_def)
qed

lemma dot_normalized_2_3:
  "dot [9306325 / 2 ^ 24, 218117 / 2 ^ 18] [9306325 / 2 ^ 24, 218117 / 2 ^ 18]
   = 8388609 / 8388608"
proof -
  have first: "fl32 (9306325 / 2 ^ 24 * (9306325 / 2 ^ 24)) = 10324441 / 2 ^ 25"
    using fl32_nearest [of "- 2" "9306325 / 2 ^ 24 * (9306325 / 2 ^ 24)" 10324441] by simp
  have second: "fl32 (218117 / 2 ^ 18 * (218117 / 2 ^ 18)) = 11614997 / 2 ^ 24"
    using fl32_nearest [of "- 1" "218117 / 2 ^ 18 * (218117 / 2 ^ 18)" 11614997] by simp
  have sum: "fl32 (10324441 / 2 ^ 25 + 11614997 / 2 ^ 24) = 8388609 / 8388608"
    using fl32_nearest [of 0 "10324441 / 2 ^ 25 + 11614997 / 2 ^ 24" 8388609] by simp
  show ?thesis by (simp only: dot_pair first second sum)
qed

text \<open>
  Claim C9. For two faces whose embeddings have the same length and at least one
  component, \<^verbatim>\<open>cosine_similarity_face\<close> returns the cosine that the library computes in
  \<^verbatim>\<open>float32\<close>, clamped below at 0: the result is never negative, it is 0 whenever the
  computed cosine is not positive, and it is 0 whenever at every index one of the two
  embeddings has the component 0 (orthogonal embeddings with disjoint supports, and the
  zero embedding with itself). Nothing clamps the result above: the bound 1 and the
  self-similarity 1 hold up to rounding only.
\<close>

theorem cosine_similarity_face_range:
  assumes "length (embedding face1) = length (embedding face2)"
    and "embedding face1 \<noteq> []"
  shows "\<exists>s. cosine_similarity_face face1 face2 = Inr s \<and> 0 \<le> s
           \<and> s = max 0 (dot (l2_normalize (embedding face1)) (l2_normalize (embedding face2)))
           \<and> (dot (l2_normalize (embedding face1)) (l2_normalize (embedding face2)) \<le> 0
                \<longrightarrow> s = 0)
           \<and> ((\<forall>(x, y) \<in> set (zip (embedding face1) (embedding face2)). x = 0 \<or> y = 0)
                \<longrightarrow> s = 0)"
proof -
  let ?a = "embedding face1" and ?b = "embedding face2"
  let ?raw = "dot (l2_normalize ?a) (l2_normalize ?b)"
  have ne: "?b \<noteq> []" using assms by auto
  have run: "cosine_similarity_face face1 face2 = Inr (max 0 ?raw)"
    using assms ne by (simp add: cosine_similarity_face_def cosine_similarity_def)
  have disjoint: "\<forall>(x, y) \<in> set (zip ?a ?b). x = 0 \<or> y = 0 \<Longrightarrow> max 0 ?raw = 0"
    using dot_disjoint_support [OF l2_normalize_disjoint_support, of ?a ?b] by simp
  show ?thesis
    using run disjoint by auto
qed

theorem cosine_similarity_face_range_witness:
  "length (embedding src_a) = length (embedding src_b) \<and> embedding src_a \<noteq> []
   \<and> cosine_similarity_face src_a src_b = Inr 0
   \<and> cosine_similarity_face src_a src_a = Inr 1"
proof -
  have shape: "length (embedding src_a) = length (embedding src_b)"
    and ne: "embedding src_a \<noteq> []"
    by (simp_all add: src_a_def src_b_def ex_face_def)
  have "\<forall>(x, y) \<in> set (zip (embedding src_a) (embedding src_b)). x = 0 \<or> y = 0"
    by (simp add: src_a_def src_b_def ex_face_def)
  with cosine_similarity_face_range [OF shape ne]
  have orth: "cosine_similarity_face src_a src_b = Inr 0" by auto
  have "dot (l2_normalize (embedding src_a)) (l2_normalize (embedding src_a)) = 1"
    by (simp add: src_a_def ex_face_def scorer_defs)
  with cosine_similarity_face_range [of src_a src_a] ne
  have self: "cosine_similarity_face src_a src_a = Inr 1" by auto
  show ?thesis using shape ne orth self by blast
qed

theorem cosine_similarity_above_one_counterexample:
  "cosine_similarity_face (ex_face [2, 3]) (ex_face [2, 3]) = Inr (8388609 / 8388608)
   \<and> cosine_similarity_face (ex_face [0, 0]) (ex_face [0, 0]) = Inr 0"
proof -
  have "cosine_similarity [2, 3] [2, 3] = Inr (dot (l2_normalize [2, 3]) (l2_normalize [2, 3]))"
    by (simp add: cosine_similarity_def)
  then have "cosine_similarity [2, 3] [2, 3] = Inr (8388609 / 8388608)"
    by (simp only: l2_normalize_2_3 dot_normalized_2_3)
  then have "cosine_similarity_face (ex_face [2, 3]) (ex_face [2, 3]) = Inr (8388609 / 8388608)"
    by (simp add: cosine_similarity_face_def ex_face_def)
  moreover have "cosine_similarity_face (ex_face [0, 0]) (ex_face [0, 0]) = Inr 0"
    by (simp add: scorer_defs ex_face_def)
  ultimately show ?thesis by blast
qed

section \<open>Properties of the identity blender\<close>

lemma np_mean_axis0_length: "length (np_mean_axis0 (e0 # es)) = length e0"
  by (simp add: np_mean_axis0_def)

lemma np_mean_axis0_nth:
  "j < length e0 \<Longrightarrow>
   np_mean_axis0 (e0 # es) ! j =
   fl32 (f32_sum (map (\<lambda>e. e ! j) (e0 # es)) / real (length (e0 # es)))"
  by (simp add: np_mean_axis0_def)

lemma np_mean_axis0_single: "np_mean_axis0 [e] = map fl32 e"
  by (rule nth_equalityI) (simp_all add: np_mean_axis0_def f32_sum_def)

lemma blend_faces_Nil: "blend_faces [] = Inr None"
  by (simp add: blend_faces_def)

lemma blend_faces_Cons:
  assumes "\<forall>f \<in> set (face0 # rest). length (embedding f) = length (embedding face0)"
  shows "blend_faces (face0 # rest) =
     (if rest \<noteq> [] \<and> np_mean_axis0 (map embedding (face0 # rest)) = embedding face0
      then Inl AssertionError
      else Inr (Some \<lparr>bbox = None, embedding = np_mean_axis0 (map embedding (face0 # rest)),
                      gender = gender face0, age = age face0\<rparr>))"
  using assms by (auto simp add: blend_faces_def Let_def)

text \<open>The mean of \<open>1\<close> and its successor \<open>1 + 2\<^sup>-\<^sup>2\<^sup>3\<close> is rounded to \<open>1\<close>.\<close>

lemma np_mean_axis0_neighbours: "np_mean_axis0 [[1], [1 + 1 / 2 ^ 23]] = [1]"
proof -
  have "fl32 (1 + (1 + 1 / 2 ^ 23)) = 2"
    using fl32_tie_example by (simp add: add.assoc [symmetric])
  then show ?thesis by (simp add: np_mean_axis0_def f32_sum_def)
qed

text \<open>
  Claim C7. For a list of two or more faces whose embeddings have one shape,
  \<^verbatim>\<open>blend_faces\<close> raises \<^verbatim>\<open>AssertionError\<close> exactly when the \<^verbatim>\<open>float32\<close> mean of the
  embeddings equals the embedding of the first face, and otherwise returns a face whose
  embedding differs from the embedding of the first face. Pairwise distinct embeddings do
  not exclude the first case.
\<close>

theorem blend_faces_distinct_or_raises:
  assumes "\<forall>f \<in> set (face0 # face1 # rest). length (embedding f) = length (embedding face0)"
  shows "(blend_faces (face0 # face1 # rest) = Inl AssertionError
            \<longleftrightarrow> np_mean_axis0 (map embedding (face0 # face1 # rest)) = embedding face0)
       \<and> (np_mean_axis0 (map embedding (face0 # face1 # rest)) \<noteq> embedding face0
            \<longrightarrow> (\<exists>blended. blend_faces (face0 # face1 # rest) = Inr (Some blended)
                    \<and> embedding blended \<noteq> embedding face0))"
  using blend_faces_Cons [OF assms] by simp

theorem blend_faces_distinct_or_raises_witness:
  "length (embedding src_b) = length (embedding src_a)
   \<and> np_mean_axis0 (map embedding [src_a, src_b]) = [1 / 2, 1 / 2]
   \<and> (\<exists>blended. blend_faces [src_a, src_b] = Inr (Some blended)
         \<and> embedding blended \<noteq> embedding src_a)"
proof -
  have shape: "\<forall>f \<in> set [src_a, src_b]. length (embedding f) = length (embedding src_a)"
    by (simp add: src_a_def src_b_def ex_face_def)
  have mean: "np_mean_axis0 (map embedding [src_a, src_b]) = [1 / 2, 1 / 2]"
    by (simp add: src_a_def src_b_def ex_face_def np_mean_axis0_def f32_sum_def)
  then have "np_mean_axis0 (map embedding [src_a, src_b]) \<noteq> embedding src_a"
    by (simp add: src_a_def ex_face_def)
  with blend_faces_distinct_or_raises [OF shape]
  have "\<exists>blended. blend_faces [src_a, src_b] = Inr (Some blended)
         \<and> embedding blended \<noteq> embedding src_a"
    by blast
  with shape mean show ?thesis by simp
qed

theorem blend_faces_distinct_counterexample:
  "blend_faces [ex_face [0], ex_face [1], ex_face [- 1]] = Inl AssertionError
   \<and> blend_faces [ex_face [1], ex_face [1 + 1 / 2 ^ 23]] = Inl AssertionError"
proof -
  have "blend_faces [ex_face [0], ex_face [1], ex_face [- 1]] = Inl AssertionError"
    by (simp add: blend_faces_def ex_face_def np_mean_axis0_def f32_sum_def)
  moreover have "blend_faces [ex_face [1], ex_face [1 + 1 / 2 ^ 23]] = Inl AssertionError"
    using np_mean_axis0_neighbours by (simp add: blend_faces_def ex_face_def)
  ultimately show ?thesis by blast
qed

text \<open>
  Claim C8. For a non-empty list of faces whose embeddings have one shape,
  \<^verbatim>\<open>blend_faces\<close> raises \<^verbatim>\<open>AssertionError\<close> when the list has more than one face and the
  mean of the embeddings equals the embedding of the first face; otherwise it returns a
  face whose gender and age are those of the first face and whose embedding is the mean
  as numpy computes it: component by component, the \<^verbatim>\<open>float32\<close> sum of the components
  divided in \<^verbatim>\<open>float32\<close> by the number of faces. A single face with a \<^verbatim>\<open>float32\<close>
  embedding keeps its embedding. The empty list gives \<^verbatim>\<open>None\<close> and no exception.
\<close>

theorem blend_faces_mean:
  assumes "\<forall>f \<in> set (face0 # rest). length (embedding f) = length (embedding face0)"
  shows "(if rest \<noteq> [] \<and> np_mean_axis0 (map embedding (face0 # rest)) = embedding face0
          then blend_faces (face0 # rest) = Inl AssertionError
          else \<exists>blended. blend_faces (face0 # rest) = Inr (Some blended)
                 \<and> length (embedding blended) = length (embedding face0)
                 \<and> (\<forall>j < length (embedding face0).
                       embedding blended ! j =
                         fl32 (f32_sum (map (\<lambda>f. embedding f ! j) (face0 # rest))
                               / real (length (face0 # rest))))
                 \<and> gender blended = gender face0 \<and> age blended = age face0
                 \<and> (rest = [] \<and> (\<forall>x \<in> set (embedding face0). fl32 x = x)
                      \<longrightarrow> embedding blended = embedding face0))
         \<and> blend_faces [] = Inr None"
proof -
  let ?m = "np_mean_axis0 (map embedding (face0 # rest))"
  let ?b = "\<lparr>bbox = None, embedding = ?m, gender = gender face0, age = age face0\<rparr>"
  have len: "length (embedding ?b) = length (embedding face0)"
    by (simp add: np_mean_axis0_length)
  have nth: "\<forall>j < length (embedding face0).
      embedding ?b ! j = fl32 (f32_sum (map (\<lambda>f. embedding f ! j) (face0 # rest))
                               / real (length (face0 # rest)))"
    using np_mean_axis0_nth [of _ "embedding face0" "map embedding rest"]
    by (simp add: comp_def)
  have single: "rest = [] \<and> (\<forall>x \<in> set (embedding face0). fl32 x = x)
      \<longrightarrow> embedding ?b = embedding face0"
    by (auto simp add: np_mean_axis0_single map_idI)
  have who: "gender ?b = gender face0 \<and> age ?b = age face0" by simp
  show ?thesis
  proof (cases "rest \<noteq> [] \<and> ?m = embedding face0")
    case True
    then have "blend_faces (face0 # rest) = Inl AssertionError"
      using blend_faces_Cons [OF assms] by simp
    with True blend_faces_Nil show ?thesis by simp
  next
    case False
    then have "blend_faces (face0 # rest) = Inr (Some ?b)"
      using blend_faces_Cons [OF assms] by simp
    with len nth single who
    have "\<exists>blended. blend_faces (face0 # rest) = Inr (Some blended)
        \<and> length (embedding blended) = length (embedding face0)
        \<and> (\<forall>j < length (embedding face0).
              embedding blended ! j =
                fl32 (f32_sum (map (\<lambda>f. embedding f ! j) (face0 # rest))
                      / real (length (face0 # rest))))
        \<and> gender blended = gender face0 \<and> age blended = age face0
        \<and> (rest = [] \<and> (\<forall>x \<in> set (embedding face0). fl32 x = x)
             \<longrightarrow> embedding blended = embedding face0)"
      by blast
    with False blend_faces_Nil show ?thesis by (simp only: if_False simp_thms)
  qed
qed

theorem blend_faces_mean_witness:
  "length (embedding src_b) = length (embedding src_a)
   \<and> (\<exists>blended. blend_faces [src_a, src_b] = Inr (Some blended)
         \<and> embedding blended ! 0 = 1 / 2 \<and> embedding blended ! 1 = 1 / 2
         \<and> gender blended = gender src_a \<and> age blended = age src_a)
   \<and> (\<exists>blended. blend_faces [src_a] = Inr (Some blended)
         \<and> embedding blended = embedding src_a)"
proof -
  have two: "\<exists>blended. blend_faces [src_a, src_b] = Inr (Some blended)
         \<and> embedding blended ! 0 = 1 / 2 \<and> embedding blended ! 1 = 1 / 2
         \<and> gender blended = gender src_a \<and> age blended = age src_a"
    using blend_faces_mean [of src_a "[src_b]"]
    by (auto simp add: src_a_def src_b_def ex_face_def np_mean_axis0_def f32_sum_def
        All_less_Suc)
  have one: "\<exists>blended. blend_faces [src_a] = Inr (Some blended)
         \<and> embedding blended = embedding src_a"
    using blend_faces_mean [of src_a "[]"]
    by (auto simp add: src_a_def ex_face_def)
  show ?thesis
    using two one by (simp add: src_a_def src_b_def ex_face_def)
qed

theorem blend_faces_same_face_twice_counterexample:
  "blend_faces [src_a, src_a] = Inl AssertionError"
  by (simp add: blend_faces_def src_a_def ex_face_def np_mean_axis0_def f32_sum_def)

section \<open>Properties of the face locator\<close>

lemma get_faces_retry:
  "face_analyser_get env img (w, h)
     (case det_thresh of None \<Rightarrow> detection_threshold env | Some t \<Rightarrow> t) = []
   \<Longrightarrow> 320 < w \<Longrightarrow> 320 < h \<Longrightarrow>
   get_faces env img (w, h) det_thresh s =
   get_faces env img (w div 2, h div 2)
     (Some (case det_thresh of None \<Rightarrow> detection_threshold env | Some t \<Rightarrow> t)) False"
  by (subst get_faces.simps) (simp add: Let_def)

lemma get_faces_stop:
  "\<not> (face_analyser_get env img (w, h)
        (case det_thresh of None \<Rightarrow> detection_threshold env | Some t \<Rightarrow> t) = []
      \<and> 320 < w \<and> 320 < h) \<Longrightarrow>
   get_faces env img (w, h) det_thresh s =
   sorted_faces s (face_analyser_get env img (w, h)
     (case det_thresh of None \<Rightarrow> detection_threshold env | Some t \<Rightarrow> t))"
  by (subst get_faces.simps) (auto simp add: Let_def)

lemma those_map_present:
  "those (map f xs) = Some ys \<Longrightarrow> ys = map (the \<circ> f) xs"
proof (induction xs arbitrary: ys)
  case Nil
  then show ?case by simp
next
  case (Cons x xs)
  then show ?case by (cases "f x"; cases "those (map f xs)") auto
qed

lemma those_map_absent:
  "those (map f xs) = None \<Longrightarrow> \<exists>x \<in> set xs. f x = None"
proof (induction xs)
  case Nil
  then show ?case by simp
next
  case (Cons x xs)
  then show ?case by (cases "f x"; cases "those (map f xs)") auto
qed

lemma sort_key_keyed:
  fixes key :: "'a \<Rightarrow> real"
  assumes that: "\<And>x. key x = k (g x)"
  shows "sorted (map key (map snd (sort_key (\<lambda>(b, x). k b) (map (\<lambda>x. (g x, x)) xs))))"
proof -
  let ?ss = "sort_key (\<lambda>(b, x). k b) (map (\<lambda>x. (g x, x)) xs)"
  have "\<forall>p \<in> set ?ss. fst p = g (snd p)" by auto
  then have eq: "map (\<lambda>(b, x). k b) ?ss = map key (map snd ?ss)"
    using that by (auto simp add: case_prod_beta)
  have "sorted (map (\<lambda>(b, x). k b) ?ss)" by (rule sorted_sort_key)
  then show ?thesis unfolding eq .
qed

lemma sorted_faces_ordered:
  assumes "\<forall>x \<in> set fs. bbox x \<noteq> None"
  shows "set (sorted_faces s fs) = set fs \<and> length (sorted_faces s fs) = length fs
       \<and> (s \<longrightarrow> sorted (map (\<lambda>x. - bbox_area (the (bbox x))) (sorted_faces s fs)))
       \<and> (\<not> s \<longrightarrow> sorted (map (\<lambda>x. bbox_left (the (bbox x))) (sorted_faces s fs)))"
proof -
  obtain boxes where some: "those (map bbox fs) = Some boxes"
    using assms those_map_absent [of bbox fs] by (cases "those (map bbox fs)") auto
  then have boxes: "boxes = map (the \<circ> bbox) fs" by (rule those_map_present)
  have zip: "zip boxes fs = map (\<lambda>x. ((the \<circ> bbox) x, x)) fs"
    unfolding boxes by (induction fs) auto
  have by_size: "sorted_faces True fs =
      map snd (sort_key (\<lambda>(b, x). - bbox_area b) (map (\<lambda>x. ((the \<circ> bbox) x, x)) fs))"
    by (simp add: sorted_faces_def some zip)
  have by_left: "sorted_faces False fs =
      map snd (sort_key (\<lambda>(b, x). bbox_left b) (map (\<lambda>x. ((the \<circ> bbox) x, x)) fs))"
    by (simp add: sorted_faces_def some zip)
  have "set (sorted_faces s fs) = set fs \<and> length (sorted_faces s fs) = length fs"
    by (cases s) (auto simp add: by_size by_left image_iff)
  moreover have "sorted (map (\<lambda>x. - bbox_area (the (bbox x))) (sorted_faces True fs))"
    unfolding by_size by (rule sort_key_keyed) simp
  moreover have "sorted (map (\<lambda>x. bbox_left (the (bbox x))) (sorted_faces False fs))"
    unfolding by_left by (rule sort_key_keyed) simp
  ultimately show ?thesis by auto
qed

text \<open>
  Without a retry the faces come back in the order asked for: by descending area when
  \<^verbatim>\<open>sort_by_face_size\<close> is set, by ascending left edge otherwise.
\<close>

lemma get_faces_direct_ordered:
  assumes "face_analyser_get env img (w, h)
             (case det_thresh of None \<Rightarrow> detection_threshold env | Some t \<Rightarrow> t) \<noteq> []
           \<or> w \<le> 320 \<or> h \<le> 320"
    and "\<forall>x \<in> set (face_analyser_get env img (w, h)
             (case det_thresh of None \<Rightarrow> detection_threshold env | Some t \<Rightarrow> t)).
           bbox x \<noteq> None"
  shows "(s \<longrightarrow> sorted (map (\<lambda>x. - bbox_area (the (bbox x)))
                        (get_faces env img (w, h) det_thresh s)))
       \<and> (\<not> s \<longrightarrow> sorted (map (\<lambda>x. bbox_left (the (bbox x)))
                          (get_faces env img (w, h) det_thresh s)))"
proof -
  have direct: "get_faces env img (w, h) det_thresh s =
        sorted_faces s (face_analyser_get env img (w, h)
          (case det_thresh of None \<Rightarrow> detection_threshold env | Some t \<Rightarrow> t))"
    using assms(1) by (intro get_faces_stop) auto
  show ?thesis
    unfolding direct using sorted_faces_ordered [OF assms(2), of s] by blast
qed

lemmas locator_defs = stub_env_def detect_below_def both_faces_def small_left_def
  big_right_def face_at_def sorted_faces_def

text \<open>
  Claim C2. With \<open>t\<close> the detection threshold in force: when the detector returns no
  face at a size whose two dimensions exceed 320, \<^verbatim>\<open>get_faces\<close> halves both dimensions
  and calls itself; at a size with a dimension of 320 or less, or when faces are found,
  there is no retry and the faces found at that size are returned, sorted. So a call at
  640 by 640 runs the detector at 640 by 640 and, when that finds nothing, at 320 by 320
  only: it returns what the detector finds at 320 by 320, and the size 160 by 160 is
  never tried.
\<close>

theorem get_faces_backoff:
  "(let t = (case det_thresh of None \<Rightarrow> detection_threshold env | Some t \<Rightarrow> t) in
      (face_analyser_get env img (w, h) t = [] \<and> 320 < w \<and> 320 < h \<longrightarrow>
         get_faces env img (w, h) det_thresh s =
         get_faces env img (w div 2, h div 2) (Some t) False)
    \<and> (face_analyser_get env img (w, h) t \<noteq> [] \<or> w \<le> 320 \<or> h \<le> 320 \<longrightarrow>
         get_faces env img (w, h) det_thresh s =
         sorted_faces s (face_analyser_get env img (w, h) t))
    \<and> (face_analyser_get env img (640, 640) t = [] \<longrightarrow>
         get_faces env img (640, 640) det_thresh s =
         sorted_faces False (face_analyser_get env img (320, 320) t)))"
proof -
  let ?t = "case det_thresh of None \<Rightarrow> detection_threshold env | Some t \<Rightarrow> t"
  have retry: "face_analyser_get env img (w, h) ?t = [] \<and> 320 < w \<and> 320 < h \<longrightarrow>
      get_faces env img (w, h) det_thresh s =
      get_faces env img (w div 2, h div 2) (Some ?t) False"
    by (simp add: get_faces_retry)
  have stop: "face_analyser_get env img (w, h) ?t \<noteq> [] \<or> w \<le> 320 \<or> h \<le> 320 \<longrightarrow>
      get_faces env img (w, h) det_thresh s =
      sorted_faces s (face_analyser_get env img (w, h) ?t)"
    using get_faces_stop [of env img w h det_thresh s] by auto
  have floor: "face_analyser_get env img (640, 640) ?t = [] \<longrightarrow>
      get_faces env img (640, 640) det_thresh s =
      sorted_faces False (face_analyser_get env img (320, 320) ?t)"
  proof
    assume none: "face_analyser_get env img (640, 640) ?t = []"
    have "get_faces env img (640, 640) det_thresh s =
          get_faces env img (640 div 2, 640 div 2) (Some ?t) False"
      using none by (intro get_faces_retry) simp_all
    also have "\<dots> = sorted_faces False (face_analyser_get env img (320, 320) ?t)"
      using get_faces_stop [of env img 320 320 "Some ?t" False] by simp
    finally show "get_faces env img (640, 640) det_thresh s =
      sorted_faces False (face_analyser_get env img (320, 320) ?t)" .
  qed
  show ?thesis
    unfolding Let_def using retry stop floor by blast
qed

theorem get_faces_backoff_witness:
  "face_analyser_get (stub_env (detect_below 320 [small_left])) 0 (640, 640) (1 / 2) = []
   \<and> get_faces (stub_env (detect_below 320 [small_left])) 0 (640, 640) None False
       = [small_left]
   \<and> get_faces (stub_env (detect_below 320 [small_left])) 0 (320, 320) None False
       = [small_left]"
  using
    get_faces_backoff [where det_thresh = None and img = 0 and w = 640 and h = 640
      and s = False and env = "stub_env (detect_below 320 [small_left])"]
    get_faces_backoff [where det_thresh = None and img = 0 and w = 320 and h = 320
      and s = False and env = "stub_env (detect_below 320 [small_left])"]
  by (simp add: locator_defs)

theorem get_faces_stops_at_320_counterexample:
  "face_analyser_get (stub_env (detect_below 160 [small_left])) 0 (160, 160) (1 / 2)
       = [small_left]
   \<and> get_faces (stub_env (detect_below 160 [small_left])) 0 (640, 640) None False = []"
  by (simp add: get_faces_retry get_faces_stop locator_defs)

text \<open>
  Claim C3. The recursive call of \<^verbatim>\<open>get_faces\<close> does not pass \<^verbatim>\<open>sort_by_face_size\<close>.
  The detector below finds nothing at 640 by 640 and two faces at 320 by 320: a small
  face on the left (area 100, left edge 10) and a large face on the right (area 400,
  left edge 30). Asked at 640 by 640 to sort by size, \<^verbatim>\<open>get_faces\<close> returns the small
  face first, in the order of the left edges; asked at 320 by 320, where no retry
  happens, it returns the large face first.
\<close>

theorem sort_by_face_size_lost_after_backoff:
  "get_faces (stub_env (detect_below 320 [small_left, big_right])) 0 (640, 640) None True
     = [small_left, big_right]
   \<and> get_faces (stub_env (detect_below 320 [small_left, big_right])) 0 (320, 320) None True
     = [big_right, small_left]
   \<and> map (map_option bbox_area \<circ> bbox) [small_left, big_right] = [Some 100, Some 400]"
  by (simp add: get_faces_retry get_faces_stop locator_defs)

section \<open>Properties of the unit pipeline\<close>

text \<open>
  When every call of \<^verbatim>\<open>swap_face\<close> in the loop returns, the loop appends the entries of
  the accepted results, in order.
\<close>

lemma unit_loop_candidates:
  "map (unit_swap_face env model unit img up) src_faces = map Inr cands \<Longrightarrow>
   unit_loop env model unit img info up src_faces results =
   Inr (results @ map (result_entry env info) (filter (accepted unit) cands))"
proof (induction src_faces arbitrary: cands results)
  case Nil
  then show ?case by simp
next
  case (Cons src rest)
  then obtain c cs where cands: "cands = c # cs"
    and c: "unit_swap_face env model unit img up src = Inr c"
    and cs: "map (unit_swap_face env model unit img up) rest = map Inr cs"
    by (cases cands) auto
  show ?case
    using Cons.IH [OF cs] c cands by simp
qed

lemma unit_loop_returns:
  "unit_loop env model unit img info up src_faces results = Inr out \<Longrightarrow>
   \<exists>cands. map (unit_swap_face env model unit img up) src_faces = map Inr cands"
proof (induction src_faces arbitrary: results)
  case Nil
  then show ?case by simp
next
  case (Cons src rest)
  from Cons.prems obtain c where c: "unit_swap_face env model unit img up src = Inr c"
    by (cases "unit_swap_face env model unit img up src") auto
  with Cons.prems obtain results' where
    "unit_loop env model unit img info up rest results' = Inr out"
    by (cases "accepted unit c") auto
  from Cons.IH [OF this] obtain cs where
    "map (unit_swap_face env model unit img up) rest = map Inr cs" by blast
  with c have "map (unit_swap_face env model unit img up) (src # rest) = map Inr (c # cs)"
    by simp
  then show ?case by blast
qed

lemma all_return_candidates:
  "\<forall>src \<in> set src_faces. \<exists>r. f src = Inr r \<Longrightarrow> \<exists>cands. map f src_faces = map Inr cands"
proof (induction src_faces)
  case Nil
  then show ?case by simp
next
  case (Cons src rest)
  then obtain r cs where "f src = Inr r" "map f rest = map Inr cs" by auto
  then have "map f (src # rest) = map Inr (r # cs)" by simp
  then show ?case by blast
qed

lemma accepted_iff:
  "accepted unit r \<longleftrightarrow>
     (\<not> check_similarity unit \<or>
      (similarity r \<noteq> [] \<and> (\<forall>x \<in> set (map snd (similarity r)). min_sim unit \<le> x)
        \<and> (\<forall>x \<in> set (map snd (ref_similarity r)). min_ref_sim unit \<le> x)))"
  by (auto simp add: accepted_def list_all_iff)

lemma swap_face_no_similarity:
  "swap_face env reference src img model fi sg up False by_size = Inr r \<Longrightarrow>
   similarity r = [] \<and> ref_similarity r = []"
  by (auto simp add: swap_face_def Let_def split: option.splits sum.splits)

lemma process_image_unit_candidates:
  assumes "enable unit" and "\<not> check_against_nsfw env img"
    and "select_src_faces unit force_blend = Inr src_faces"
    and "map (unit_swap_face env model unit img up) src_faces = map Inr cands"
  shows "process_image_unit env model unit img info up force_blend =
         Inr (map (result_entry env info) (filter (accepted unit) cands))"
  using assms unit_loop_candidates [OF assms(4), of info "[]"]
  by (simp add: process_image_unit_def)

text \<open>Evaluation of the example unit on the example environment.\<close>

lemmas example_defs = locator_defs ex_face_def src_a_def src_b_def src_ab_def ex_unit_def

lemmas pipeline_defs = unit_swap_face_def swap_face_def get_faces_retry get_faces_stop
  scorer_defs Let_def

lemma ex_swap_a:
  "unit_swap_face (stub_env both_faces) ''model'' ex_unit 0 False (Some src_a)
   = Inr \<lparr>image = 1, similarity = [(0, 1)], ref_similarity = [(0, 1)]\<rparr>"
  by (simp add: example_defs pipeline_defs)

lemma ex_swap_b:
  "unit_swap_face (stub_env both_faces) ''model'' ex_unit 0 False (Some src_b)
   = Inr \<lparr>image = 1, similarity = [(0, 0)], ref_similarity = [(0, 1)]\<rparr>"
  by (simp add: example_defs pipeline_defs)

lemma ex_swap_ab:
  "\<exists>r. unit_swap_face (stub_env both_faces) ''model'' ex_unit 0 False (Some src_ab) = Inr r"
  by (simp add: example_defs pipeline_defs)

lemma ex_unit_fields:
  "enable ex_unit" "\<not> check_similarity ex_unit" "\<not> blend_faces_flag ex_unit"
  "faces ex_unit = [src_a, src_b]" "blended_faces ex_unit = Some src_ab"
  "reference_face ex_unit = Some src_a" "compute_similarity ex_unit"
  "min_sim ex_unit = 1 / 2" "min_ref_sim ex_unit = 0"
  by (simp_all add: ex_unit_def)

text \<open>
  Claim C4. For an enabled unit, a content-safe image and \<^verbatim>\<open>check_similarity\<close>
  disabled, when the calls of \<^verbatim>\<open>swap_face\<close> for the unit's faces do not raise:
  with \<^verbatim>\<open>blend_faces\<close> false and \<^verbatim>\<open>force_blend\<close> false, \<^verbatim>\<open>process_image_unit\<close> returns
  as many pairs as the unit has source faces; with \<^verbatim>\<open>blend_faces\<close> or \<^verbatim>\<open>force_blend\<close>
  true, a blended face present and, for a unit of more than one face, a reference face
  whose embedding differs from the blended one (the assertion of the blend branch), it
  returns exactly one pair.
\<close>

theorem process_image_unit_fan_out:
  assumes "enable unit" and "\<not> check_against_nsfw env img" and "\<not> check_similarity unit"
    and "\<forall>src \<in> set (faces unit) \<union> set_option (blended_faces unit).
           \<exists>r. unit_swap_face env model unit img up (Some src) = Inr r"
  shows "(\<not> blend_faces_flag unit \<and> \<not> force_blend \<longrightarrow>
            (\<exists>out. process_image_unit env model unit img info up force_blend = Inr out
               \<and> length out = length (faces unit)))
       \<and> ((blend_faces_flag unit \<or> force_blend)
            \<and> (\<exists>b. blended_faces unit = Some b
                  \<and> (length (faces unit) > 1 \<longrightarrow>
                       (\<exists>r. reference_face unit = Some r \<and> embedding r \<noteq> embedding b)))
          \<longrightarrow> (\<exists>out. process_image_unit env model unit img info up force_blend = Inr out
                 \<and> length out = 1))"
proof -
  have run: "\<exists>out. process_image_unit env model unit img info up force_blend = Inr out
               \<and> length out = length src_faces"
    if sel: "select_src_faces unit force_blend = Inr src_faces"
      and ok: "\<forall>src \<in> set src_faces. \<exists>r. unit_swap_face env model unit img up src = Inr r"
    for src_faces
  proof -
    from all_return_candidates [OF ok] obtain cands where
      cands: "map (unit_swap_face env model unit img up) src_faces = map Inr cands" by blast
    then have "length cands = length src_faces"
      by (metis length_map)
    moreover have "filter (accepted unit) cands = cands"
      using assms(3) by (simp add: accepted_def)
    ultimately show ?thesis
      using process_image_unit_candidates [OF assms(1,2) sel cands, of info] by simp
  qed
  have enumerate: "\<not> blend_faces_flag unit \<and> \<not> force_blend \<Longrightarrow>
      \<exists>out. process_image_unit env model unit img info up force_blend = Inr out
         \<and> length out = length (faces unit)"
    using run [of "map Some (faces unit)"] assms(4) by (simp add: select_src_faces_def)
  have blend: "\<exists>out. process_image_unit env model unit img info up force_blend = Inr out
         \<and> length out = 1"
    if "blend_faces_flag unit \<or> force_blend" and "blended_faces unit = Some b"
      and "length (faces unit) > 1 \<longrightarrow>
             (\<exists>r. reference_face unit = Some r \<and> embedding r \<noteq> embedding b)" for b
  proof -
    have "select_src_faces unit force_blend = Inr [Some b]"
      using that by (auto simp add: select_src_faces_def Let_def)
    from run [OF this] show ?thesis using assms(4) that(2) by simp
  qed
  show ?thesis using enumerate blend by blast
qed

theorem process_image_unit_fan_out_witness:
  "enable ex_unit \<and> \<not> check_against_nsfw (stub_env both_faces) 0
   \<and> \<not> check_similarity ex_unit \<and> length (faces ex_unit) = 2
   \<and> (\<exists>out. process_image_unit (stub_env both_faces) ''model'' ex_unit 0 None False False
               = Inr out \<and> length out = 2)
   \<and> (\<exists>out. process_image_unit (stub_env both_faces) ''model''
               (ex_unit\<lparr>blend_faces_flag := True\<rparr>) 0 None False False
               = Inr out \<and> length out = 1)"
proof -
  have safe: "\<not> check_against_nsfw (stub_env both_faces) 0"
    by (simp add: stub_env_def)
  have swaps: "\<forall>src \<in> set (faces ex_unit) \<union> set_option (blended_faces ex_unit).
      \<exists>r. unit_swap_face (stub_env both_faces) ''model'' ex_unit 0 False (Some src) = Inr r"
    using ex_swap_a ex_swap_b ex_swap_ab by (simp add: ex_unit_fields)
  let ?blend = "ex_unit\<lparr>blend_faces_flag := True\<rparr>"
  have same: "unit_swap_face (stub_env both_faces) ''model'' ?blend 0 False src =
      unit_swap_face (stub_env both_faces) ''model'' ex_unit 0 False src" for src
    by (simp add: unit_swap_face_def)
  have swaps': "\<forall>src \<in> set (faces ?blend) \<union> set_option (blended_faces ?blend).
      \<exists>r. unit_swap_face (stub_env both_faces) ''model'' ?blend 0 False (Some src) = Inr r"
    using swaps by (simp add: same)
  have ne: "embedding src_a \<noteq> embedding src_ab"
    by (simp add: src_a_def src_ab_def ex_face_def)
  from process_image_unit_fan_out [OF ex_unit_fields(1) safe ex_unit_fields(2) swaps,
      where info = None and force_blend = False]
  have two: "\<exists>out. process_image_unit (stub_env both_faces) ''model'' ex_unit 0 None False False
               = Inr out \<and> length out = 2"
    by (auto simp add: ex_unit_fields)
  from process_image_unit_fan_out [where unit = ?blend and env = "stub_env both_faces"
      and img = 0 and model = "''model''" and up = False and info = None
      and force_blend = False] safe swaps' ne
  have one: "\<exists>out. process_image_unit (stub_env both_faces) ''model'' ?blend 0 None False False
               = Inr out \<and> length out = 1"
    by (auto simp add: ex_unit_fields)
  show ?thesis
    using safe two one by (auto simp add: ex_unit_fields)
qed

theorem process_image_unit_fan_out_counterexample:
  "\<not> blend_faces_flag ex_unit \<and> length (faces ex_unit) = 2
   \<and> process_image_unit (stub_env both_faces) ''model'' ex_unit 0 None False True
       = Inr [(1, Some ''similarity'')]
   \<and> process_image_unit (stub_env both_faces) ''model''
       (ex_unit\<lparr>blend_faces_flag := True, reference_face := Some src_ab\<rparr>) 0 None False False
       = Inl AssertionError"
  by (simp add: process_image_unit_def select_src_faces_def accepted_def result_entry_def
      example_defs pipeline_defs)

text \<open>
  Claim C6. For an enabled unit with \<^verbatim>\<open>check_similarity\<close> enabled and a content-safe
  image, let the candidates be the results of \<^verbatim>\<open>swap_face\<close> for the chosen source faces.
  The output of \<^verbatim>\<open>process_image_unit\<close> consists of the entries of exactly those
  candidates, in order, that have at least one computed similarity, every similarity at
  or above \<^verbatim>\<open>min_sim\<close> and every reference similarity at or above \<^verbatim>\<open>min_ref_sim\<close>. A
  candidate with a similarity below its threshold is left out, and so is a candidate for
  which no similarity was computed.
\<close>

theorem process_image_unit_gating:
  assumes "enable unit" and "\<not> check_against_nsfw env img" and "check_similarity unit"
    and "select_src_faces unit force_blend = Inr src_faces"
    and "map (unit_swap_face env model unit img up) src_faces = map Inr cands"
  shows "process_image_unit env model unit img info up force_blend =
         Inr (map (result_entry env info)
                (filter (\<lambda>r. similarity r \<noteq> []
                           \<and> (\<forall>x \<in> set (map snd (similarity r)). min_sim unit \<le> x)
                           \<and> (\<forall>x \<in> set (map snd (ref_similarity r)). min_ref_sim unit \<le> x))
                   cands))"
proof -
  have "filter (accepted unit) cands =
        filter (\<lambda>r. similarity r \<noteq> []
                  \<and> (\<forall>x \<in> set (map snd (similarity r)). min_sim unit \<le> x)
                  \<and> (\<forall>x \<in> set (map snd (ref_similarity r)). min_ref_sim unit \<le> x)) cands"
    using assms(3) by (intro filter_cong) (simp_all add: accepted_iff)
  with process_image_unit_candidates [OF assms(1,2,4,5), of info] show ?thesis by simp
qed

theorem process_image_unit_gating_witness:
  "enable (ex_unit\<lparr>check_similarity := True\<rparr>)
   \<and> \<not> check_against_nsfw (stub_env both_faces) 0
   \<and> check_similarity (ex_unit\<lparr>check_similarity := True\<rparr>)
   \<and> select_src_faces (ex_unit\<lparr>check_similarity := True\<rparr>) False
       = Inr [Some src_a, Some src_b]
   \<and> map (unit_swap_face (stub_env both_faces) ''model'' (ex_unit\<lparr>check_similarity := True\<rparr>)
            0 False) [Some src_a, Some src_b]
       = map Inr [\<lparr>image = 1, similarity = [(0, 1)], ref_similarity = [(0, 1)]\<rparr>,
                  \<lparr>image = 1, similarity = [(0, 0)], ref_similarity = [(0, 1)]\<rparr>]
   \<and> process_image_unit (stub_env both_faces) ''model'' (ex_unit\<lparr>check_similarity := True\<rparr>)
       0 None False False
       = Inr [(1, Some ''similarity'')]"
proof -
  let ?unit = "ex_unit\<lparr>check_similarity := True\<rparr>"
  have en: "enable ?unit" and chk: "check_similarity ?unit"
    by (simp_all add: ex_unit_fields)
  have safe: "\<not> check_against_nsfw (stub_env both_faces) 0"
    by (simp add: stub_env_def)
  have sel: "select_src_faces ?unit False = Inr [Some src_a, Some src_b]"
    by (simp add: select_src_faces_def ex_unit_fields)
  have same: "unit_swap_face (stub_env both_faces) ''model'' ?unit 0 False src =
      unit_swap_face (stub_env both_faces) ''model'' ex_unit 0 False src" for src
    by (simp add: unit_swap_face_def)
  have cands: "map (unit_swap_face (stub_env both_faces) ''model'' ?unit 0 False)
        [Some src_a, Some src_b]
      = map Inr [\<lparr>image = 1, similarity = [(0, 1)], ref_similarity = [(0, 1)]\<rparr>,
                 \<lparr>image = 1, similarity = [(0, 0)], ref_similarity = [(0, 1)]\<rparr>]"
    by (simp add: same ex_swap_a ex_swap_b)
  from process_image_unit_gating [OF en safe chk sel cands, of None]
  have "process_image_unit (stub_env both_faces) ''model'' ?unit 0 None False False
      = Inr [(1, Some ''similarity'')]"
    by (simp add: ex_unit_fields result_entry_def stub_env_def)
  with en chk safe sel cands show ?thesis by blast
qed

theorem process_image_unit_gating_counterexample:
  "unit_swap_face (stub_env (detect_below 0 [])) ''model''
       (ex_unit\<lparr>check_similarity := True\<rparr>) 0 False (Some src_a)
     = Inr \<lparr>image = 0, similarity = [], ref_similarity = []\<rparr>
   \<and> process_image_unit (stub_env (detect_below 0 [])) ''model''
       (ex_unit\<lparr>check_similarity := True\<rparr>) 0 None False False = Inr []"
  by (simp add: process_image_unit_def select_src_faces_def accepted_def result_entry_def
      example_defs pipeline_defs)

text \<open>
  Claim C10. For an enabled unit with \<^verbatim>\<open>check_similarity\<close> true and
  \<^verbatim>\<open>compute_similarity\<close> false, and a content-safe image: \<^verbatim>\<open>process_image_unit\<close> never
  returns a non-empty list; every result that \<^verbatim>\<open>swap_face\<close> returns has both similarity
  dictionaries empty and is rejected; and the empty list is returned whenever the choice
  of the source faces passes and no call of \<^verbatim>\<open>swap_face\<close> raises. (Otherwise the
  exception is raised.)
\<close>

theorem process_image_unit_check_without_compute:
  assumes "enable unit" and "\<not> check_against_nsfw env img"
    and "check_similarity unit" and "\<not> compute_similarity unit"
  shows "(\<forall>out. process_image_unit env model unit img info up force_blend = Inr out \<longrightarrow> out = [])
       \<and> (\<forall>src r. unit_swap_face env model unit img up src = Inr r \<longrightarrow>
             similarity r = [] \<and> ref_similarity r = [] \<and> \<not> accepted unit r)
       \<and> (\<forall>src_faces. select_src_faces unit force_blend = Inr src_faces
             \<and> (\<forall>src \<in> set src_faces. \<exists>r. unit_swap_face env model unit img up src = Inr r)
           \<longrightarrow> process_image_unit env model unit img info up force_blend = Inr [])"
proof -
  have empty: "similarity r = [] \<and> ref_similarity r = [] \<and> \<not> accepted unit r"
    if "unit_swap_face env model unit img up src = Inr r" for src r
    using that assms(3,4) swap_face_no_similarity [of env _ src img model _ _ up _ r]
    by (simp add: unit_swap_face_def accepted_def)
  have none: "filter (accepted unit) cands = []"
    if "map (unit_swap_face env model unit img up) src_faces = map Inr cands" for src_faces cands
  proof -
    have "\<forall>c \<in> set cands. \<exists>src. unit_swap_face env model unit img up src = Inr c"
    proof
      fix c assume "c \<in> set cands"
      then have "Inr c \<in> set (map (unit_swap_face env model unit img up) src_faces)"
        using that by simp
      then show "\<exists>src. unit_swap_face env model unit img up src = Inr c" by auto
    qed
    with empty show ?thesis by (auto simp add: filter_empty_conv)
  qed
  have total: "process_image_unit env model unit img info up force_blend = Inr []"
    if sel: "select_src_faces unit force_blend = Inr src_faces"
      and ok: "\<forall>src \<in> set src_faces. \<exists>r. unit_swap_face env model unit img up src = Inr r"
    for src_faces
  proof -
    from all_return_candidates [OF ok] obtain cands where
      cands: "map (unit_swap_face env model unit img up) src_faces = map Inr cands" by blast
    from process_image_unit_candidates [OF assms(1,2) sel cands, of info] none [OF cands]
    show ?thesis by simp
  qed
  have partial: "out = []"
    if out: "process_image_unit env model unit img info up force_blend = Inr out" for out
  proof -
    from out assms(1,2) obtain src_faces where
      sel: "select_src_faces unit force_blend = Inr src_faces"
      and loop: "unit_loop env model unit img info up src_faces [] = Inr out"
      by (cases "select_src_faces unit force_blend") (auto simp add: process_image_unit_def)
    from unit_loop_returns [OF loop] obtain cands where
      cands: "map (unit_swap_face env model unit img up) src_faces = map Inr cands" by blast
    from process_image_unit_candidates [OF assms(1,2) sel cands, of info] none [OF cands] out
    show ?thesis by simp
  qed
  show ?thesis using empty total partial by blast
qed

theorem process_image_unit_check_without_compute_witness:
  "enable (ex_unit\<lparr>check_similarity := True, compute_similarity := False\<rparr>)
   \<and> \<not> check_against_nsfw (stub_env both_faces) 0
   \<and> check_similarity (ex_unit\<lparr>check_similarity := True, compute_similarity := False\<rparr>)
   \<and> \<not> compute_similarity (ex_unit\<lparr>check_similarity := True, compute_similarity := False\<rparr>)
   \<and> unit_swap_face (stub_env both_faces) ''model''
       (ex_unit\<lparr>check_similarity := True, compute_similarity := False\<rparr>) 0 False (Some src_a)
       = Inr \<lparr>image = 1, similarity = [], ref_similarity = []\<rparr>
   \<and> process_image_unit (stub_env both_faces) ''model''
       (ex_unit\<lparr>check_similarity := True, compute_similarity := False\<rparr>) 0 None False False
       = Inr []"
proof -
  let ?unit = "ex_unit\<lparr>check_similarity := True, compute_similarity := False\<rparr>"
  have en: "enable ?unit" and chk: "check_similarity ?unit"
    and cmp: "\<not> compute_similarity ?unit"
    by (simp_all add: ex_unit_fields)
  have safe: "\<not> check_against_nsfw (stub_env both_faces) 0"
    by (simp add: stub_env_def)
  have sel: "select_src_faces ?unit False = Inr [Some src_a, Some src_b]"
    by (simp add: select_src_faces_def ex_unit_fields)
  have swap_a: "unit_swap_face (stub_env both_faces) ''model'' ?unit 0 False (Some src_a)
      = Inr \<lparr>image = 1, similarity = [], ref_similarity = []\<rparr>"
    by (simp add: example_defs pipeline_defs)
  have swap_b: "unit_swap_face (stub_env both_faces) ''model'' ?unit 0 False (Some src_b)
      = Inr \<lparr>image = 1, similarity = [], ref_similarity = []\<rparr>"
    by (simp add: example_defs pipeline_defs)
  have ok: "\<forall>src \<in> set [Some src_a, Some src_b].
      \<exists>r. unit_swap_face (stub_env both_faces) ''model'' ?unit 0 False src = Inr r"
    using swap_a swap_b by simp
  from process_image_unit_check_without_compute [OF en safe chk cmp,
      where model = "''model''" and up = False and info = None and force_blend = False]
    sel ok
  have "process_image_unit (stub_env both_faces) ''model'' ?unit 0 None False False = Inr []"
    by blast
  with en chk cmp safe swap_a show ?thesis by blast
qed

theorem process_image_unit_check_without_compute_counterexample:
  "process_image_unit (stub_env both_faces) ''model''
       (ex_unit\<lparr>blend_faces_flag := True, reference_face := Some src_ab,
          check_similarity := True, compute_similarity := False\<rparr>) 0 None False False
     = Inl AssertionError"
  by (simp add: process_image_unit_def select_src_faces_def example_defs)

text \<open>
  The loop over the images when no call raises: for each image the result of the
  remaining units replaces what the unit produced when it is a non-empty list, and what
  the unit produced is kept when it is \<^verbatim>\<open>None\<close> or empty.
\<close>

lemma images_loop_results:
  assumes "map (\<lambda>(img, info). step img info) images = map Inr swapped"
    and "map rest swapped = map Inr nexts"
  shows "images_loop rest step images processed =
         Inr (processed @
              concat (map2 (\<lambda>s n. case n of Some (x # xs) \<Rightarrow> x # xs | _ \<Rightarrow> s) swapped nexts))"
  using assms
proof (induction images arbitrary: swapped nexts processed)
  case Nil
  then show ?case by simp
next
  case (Cons first images)
  obtain img info where first: "first = (img, info)" by (cases first)
  with Cons.prems(1) obtain s ss where swapped: "swapped = s # ss"
    and s: "step img info = Inr s"
    and ss: "map (\<lambda>(img, info). step img info) images = map Inr ss"
    by (cases swapped) auto
  with Cons.prems(2) obtain n ns where nexts: "nexts = n # ns"
    and n: "rest s = Inr n"
    and ns: "map rest ss = map Inr ns"
    by (cases nexts) auto
  show ?case
  proof (cases n)
    case None
    with Cons.IH [OF ss ns, of "processed @ s"] first swapped nexts s n
    show ?thesis by simp
  next
    case (Some found)
    show ?thesis
    proof (cases found)
      case Nil
      with Cons.IH [OF ss ns, of "processed @ s"] first swapped nexts s n Some
      show ?thesis by simp
    next
      case (Cons x xs)
      with Cons.IH [OF ss ns, of "processed @ x # xs"] first swapped nexts s n Some
      show ?thesis by simp
    qed
  qed
qed

lemma keep_all_when_none:
  "map (\<lambda>s. Inr None :: error + _) swapped = map Inr nexts \<Longrightarrow>
   map2 (\<lambda>s n. case n of Some (x # xs) \<Rightarrow> x # xs | _ \<Rightarrow> s) swapped nexts = swapped"
proof (induction swapped arbitrary: nexts)
  case Nil
  then show ?case by simp
next
  case (Cons s ss)
  then show ?case by (cases nexts) auto
qed

text \<open>
  Claim C5. With an empty list of units \<^verbatim>\<open>process_images_units\<close> returns \<^verbatim>\<open>None\<close>,
  whatever the images. The pass-through is in the caller: with a unit and the remaining
  units, and no call raising, the result is the concatenation over the images of the
  result of the remaining units where that is a non-empty list, and of what the unit
  produced where it is \<^verbatim>\<open>None\<close> or empty. So a single unit returns the concatenation
  of what it produced.
\<close>

theorem process_images_units_base:
  assumes "map (\<lambda>(img, info). process_image_unit env model unit img info up force_blend) images
           = map Inr swapped"
    and "map (\<lambda>s. process_images_units env model units s up force_blend) swapped
           = map Inr nexts"
  shows "process_images_units env model [] images up force_blend = Inr None
       \<and> process_images_units env model (unit # units) images up force_blend
           = Inr (Some (concat (map2 (\<lambda>s n. case n of Some (x # xs) \<Rightarrow> x # xs | _ \<Rightarrow> s)
                                  swapped nexts)))
       \<and> (units = [] \<longrightarrow>
            process_images_units env model (unit # units) images up force_blend
              = Inr (Some (concat swapped)))"
proof -
  have general: "process_images_units env model (unit # units) images up force_blend
      = Inr (Some (concat (map2 (\<lambda>s n. case n of Some (x # xs) \<Rightarrow> x # xs | _ \<Rightarrow> s)
                             swapped nexts)))"
    using images_loop_results [OF assms, of "[]"] by simp
  have base: "process_images_units env model [] images up force_blend = Inr None"
    by simp
  have single: "units = [] \<longrightarrow>
      process_images_units env model (unit # units) images up force_blend
        = Inr (Some (concat swapped))"
  proof
    assume "units = []"
    with assms(2) have "map (\<lambda>s. Inr None :: error + _) swapped = map Inr nexts" by simp
    then have keep:
      "map2 (\<lambda>s n. case n of Some (x # xs) \<Rightarrow> x # xs | _ \<Rightarrow> s) swapped nexts = swapped"
      by (rule keep_all_when_none)
    show "process_images_units env model (unit # units) images up force_blend
        = Inr (Some (concat swapped))"
      using general unfolding keep .
  qed
  from base general single show ?thesis by blast
qed

theorem process_images_units_base_witness:
  "map (\<lambda>(img, info).
          process_image_unit (stub_env both_faces) ''model'' ex_unit img info False False)
     [(0, None)]
     = map Inr [[(1, Some ''similarity''), (1, Some ''similarity'')]]
   \<and> map (\<lambda>s. process_images_units (stub_env both_faces) ''model''
                 [ex_unit\<lparr>check_similarity := True, compute_similarity := False\<rparr>] s
                 False False)
       [[(1, Some ''similarity''), (1, Some ''similarity'')]]
     = map Inr [Some []]
   \<and> process_images_units (stub_env both_faces) ''model''
       [ex_unit, ex_unit\<lparr>check_similarity := True, compute_similarity := False\<rparr>]
       [(0, None)] False False
     = Inr (Some [(1, Some ''similarity''), (1, Some ''similarity'')])
   \<and> process_images_units (stub_env both_faces) ''model'' [ex_unit] [(0, None)] False False
     = Inr (Some [(1, Some ''similarity''), (1, Some ''similarity'')])"
proof -
  let ?reject = "ex_unit\<lparr>check_similarity := True, compute_similarity := False\<rparr>"
  have run: "map (\<lambda>(img, info).
          process_image_unit (stub_env both_faces) ''model'' ex_unit img info False False)
      [(0, None)]
      = map Inr [[(1, Some ''similarity''), (1, Some ''similarity'')]]"
    by (simp add: process_image_unit_def select_src_faces_def accepted_def result_entry_def
        example_defs pipeline_defs)
  have rejected: "process_image_unit (stub_env both_faces) ''model'' ?reject img info
      False False = Inr []" for img info
    by (simp add: process_image_unit_def select_src_faces_def accepted_def result_entry_def
        example_defs pipeline_defs)
  have later: "map (\<lambda>s. process_images_units (stub_env both_faces) ''model'' [?reject] s
                 False False)
      [[(1, Some ''similarity''), (1, Some ''similarity'')]]
      = map Inr [Some []]"
    by (simp add: rejected)
  have last: "map (\<lambda>s. process_images_units (stub_env both_faces) ''model'' [] s False False)
      [[(1, Some ''similarity''), (1, Some ''similarity'')]]
      = map Inr [None]"
    by simp
  from process_images_units_base [OF run later]
  have two: "process_images_units (stub_env both_faces) ''model'' [ex_unit, ?reject]
      [(0, None)] False False
      = Inr (Some [(1, Some ''similarity''), (1, Some ''similarity'')])"
    by simp
  from process_images_units_base [OF run last]
  have one: "process_images_units (stub_env both_faces) ''model'' [ex_unit] [(0, None)]
      False False
      = Inr (Some [(1, Some ''similarity''), (1, Some ''similarity'')])"
    by simp
  from run later two one show ?thesis by blast
qed

theorem process_images_units_empty_counterexample:
  "process_images_units (stub_env both_faces) ''model'' [] [(0, None)] False False = Inr None"
  by simp

section \<open>Properties of the warp compositor\<close>

lemma py_int_of_nat: "py_int (real n) = int n"
  by (simp add: py_int_def)

lemma astype_roundtrip: "astype_uint8 (astype_float32 p) = p"
proof -
  have "astype_uint8 (astype_float32 p) = word_of_int (int (unat p))"
    unfolding astype_uint8_def astype_float32_def py_int_of_nat ..
  then show ?thesis by simp
qed

lemma fl32_astype [simp]: "fl32 (astype_float32 p) = astype_float32 p"
  unfolding astype_float32_def by (rule fl32_uint8)

text \<open>
  The two end cases of the blend of one channel: with the weight 1 and with the weight 0
  every rounding is exact.
\<close>

lemma blend_weight_one:
  "astype_uint8 (fl32 (fl32 (1 * astype_float32 p) + fl32 (fl32 (1 - 1) * astype_float32 t))) = p"
  by (simp add: astype_roundtrip)

lemma blend_weight_zero:
  "astype_uint8 (fl32 (fl32 (0 * astype_float32 p) + fl32 (fl32 (1 - 0) * astype_float32 t))) = t"
  by (simp add: astype_roundtrip)

text \<open>
  A feathered pixel: with the weight \<open>fl32 (0.5 / 255)\<close> the blend of 200 with 200 is
  rounded to 199.99998 and cast to 199.
\<close>

lemma feathered_weight: "fl32 (1 / 2 / 255) = 8421505 / 2 ^ 32"
  using fl32_nearest [of "- 9" "1 / 2 / 255" 8421505] by simp

lemma blend_feathered:
  "astype_uint8
     (fl32 (fl32 (8421505 / 2 ^ 32 * astype_float32 200)
            + fl32 (fl32 (1 - 8421505 / 2 ^ 32) * astype_float32 200))) = 199"
proof -
  have patch: "fl32 (8421505 / 2 ^ 32 * 200) = 6579301 / 2 ^ 24"
    using fl32_nearest [of "- 2" "8421505 / 2 ^ 32 * 200" 13158602] by simp
  have weight: "fl32 (1 - 8421505 / 2 ^ 32) = 16744319 / 2 ^ 24"
    using fl32_nearest [of "- 1" "1 - 8421505 / 2 ^ 32" 16744319] by simp
  have target: "fl32 (16744319 / 2 ^ 24 * 200) = 13081499 / 2 ^ 16"
    using fl32_nearest [of 7 "16744319 / 2 ^ 24 * 200" 13081499] by simp
  have sum: "fl32 (6579301 / 2 ^ 24 + 13081499 / 2 ^ 16) = 13107199 / 2 ^ 16"
    using fl32_nearest [of 7 "6579301 / 2 ^ 24 + 13081499 / 2 ^ 16" 13107199] by simp
  have pixel: "astype_float32 200 = 200" by (simp add: astype_float32_def)
  have "astype_uint8
      (fl32 (fl32 (8421505 / 2 ^ 32 * astype_float32 200)
             + fl32 (fl32 (1 - 8421505 / 2 ^ 32) * astype_float32 200)))
      = astype_uint8 (13107199 / 2 ^ 16)"
    by (simp only: pixel patch weight target sum)
  then show ?thesis by (simp add: astype_uint8_def py_int_def)
qed

lemma get_paste_back_unfold:
  "get_paste_back cv fthresh erosion_factor M aimg_shape bgr_fake fake_diff target_shape
     target_img =
   (case final_img_mask cv erosion_factor (invertAffineTransform cv M) aimg_shape target_shape of
      Inl e \<Rightarrow> Inl e
    | Inr img_mask \<Rightarrow>
        if py_int (fl64 (5 * erosion_factor)) < 0 then Inl CvError
        else
          Inr (\<lambda>i j c.
                 astype_uint8
                   (fl32
                      (fl32 (img_mask i j
                             * astype_float32
                                 (warpAffine_image cv bgr_fake aimg_shape
                                    (invertAffineTransform cv M)
                                    (snd target_shape, fst target_shape) i j c))
                       + fl32 (fl32 (1 - img_mask i j) * astype_float32 (target_img i j c))))))"
  by (simp add: get_paste_back_def final_fake_diff_def Let_def split: sum.splits)

text \<open>
  Claim C1. The paste-back part of \<^verbatim>\<open>UpscaledINSwapper.get\<close> raises what the
  computation of the presence mask raises, and \<^verbatim>\<open>cv2.error\<close> when the blur size
  \<^verbatim>\<open>int(5*erosion_factor)\<close> of the difference mask is negative; in every other case it
  returns an image of which every channel of every pixel is the cast to 8 bits of
  \<open>img_mask * warped patch + (1 - img_mask) * target\<close>, computed in \<^verbatim>\<open>float32\<close> (each
  product, the difference and the sum rounded) with the normalised presence mask. Where
  the mask is 1 the result is the pixel of the warped patch, where it is 0 the pixel of
  the target. The difference mask does not enter: any other \<^verbatim>\<open>fake_diff\<close> and any other
  threshold give the same result.
\<close>

theorem get_paste_back_merge:
  "(case final_img_mask cv erosion_factor (invertAffineTransform cv M) aimg_shape target_shape of
      Inl e \<Rightarrow>
        get_paste_back cv fthresh erosion_factor M aimg_shape bgr_fake fake_diff target_shape
          target_img = Inl e
    | Inr img_mask \<Rightarrow>
        if py_int (fl64 (5 * erosion_factor)) < 0
        then
          get_paste_back cv fthresh erosion_factor M aimg_shape bgr_fake fake_diff target_shape
            target_img = Inl CvError
        else
          (\<exists>out.
             get_paste_back cv fthresh erosion_factor M aimg_shape bgr_fake fake_diff target_shape
               target_img = Inr out
           \<and> (\<forall>i j c.
                 out i j c =
                   astype_uint8
                     (fl32
                        (fl32 (img_mask i j
                               * astype_float32
                                   (warpAffine_image cv bgr_fake aimg_shape
                                      (invertAffineTransform cv M)
                                      (snd target_shape, fst target_shape) i j c))
                         + fl32 (fl32 (1 - img_mask i j) * astype_float32 (target_img i j c))))
               \<and> (img_mask i j = 1 \<longrightarrow>
                    out i j c =
                      warpAffine_image cv bgr_fake aimg_shape (invertAffineTransform cv M)
                        (snd target_shape, fst target_shape) i j c)
               \<and> (img_mask i j = 0 \<longrightarrow> out i j c = target_img i j c))))
   \<and> (\<forall>fthresh' fake_diff'.
         get_paste_back cv fthresh' erosion_factor M aimg_shape bgr_fake fake_diff' target_shape
           target_img =
         get_paste_back cv fthresh erosion_factor M aimg_shape bgr_fake fake_diff target_shape
           target_img)"
proof -
  let ?IM = "invertAffineTransform cv M"
  let ?warped = "warpAffine_image cv bgr_fake aimg_shape ?IM (snd target_shape, fst target_shape)"
  have indep: "get_paste_back cv fthresh' erosion_factor M aimg_shape bgr_fake fake_diff'
        target_shape target_img =
      get_paste_back cv fthresh erosion_factor M aimg_shape bgr_fake fake_diff target_shape
        target_img" for fthresh' fake_diff'
    by (simp only: get_paste_back_unfold)
  show ?thesis
  proof (cases "final_img_mask cv erosion_factor ?IM aimg_shape target_shape")
    case (Inl e)
    then have "get_paste_back cv fthresh erosion_factor M aimg_shape bgr_fake fake_diff
        target_shape target_img = Inl e"
      by (simp add: get_paste_back_unfold)
    with Inl indep show ?thesis by simp
  next
    case (Inr img_mask)
    let ?out = "\<lambda>i j c.
        astype_uint8
          (fl32 (fl32 (img_mask i j * astype_float32 (?warped i j c))
                 + fl32 (fl32 (1 - img_mask i j) * astype_float32 (target_img i j c))))"
    have raise: "get_paste_back cv fthresh erosion_factor M aimg_shape bgr_fake fake_diff
        target_shape target_img = Inl CvError" if "py_int (fl64 (5 * erosion_factor)) < 0"
      using Inr that by (simp add: get_paste_back_unfold)
    have run: "get_paste_back cv fthresh erosion_factor M aimg_shape bgr_fake fake_diff
        target_shape target_img = Inr ?out" if "\<not> py_int (fl64 (5 * erosion_factor)) < 0"
      using Inr that by (simp add: get_paste_back_unfold)
    have pixel: "?out i j c =
        astype_uint8
          (fl32 (fl32 (img_mask i j * astype_float32 (?warped i j c))
                 + fl32 (fl32 (1 - img_mask i j) * astype_float32 (target_img i j c))))
        \<and> (img_mask i j = 1 \<longrightarrow> ?out i j c = ?warped i j c)
        \<and> (img_mask i j = 0 \<longrightarrow> ?out i j c = target_img i j c)" for i j c
      using blend_weight_one [of "?warped i j c" "target_img i j c"]
        blend_weight_zero [of "?warped i j c" "target_img i j c"]
      by auto
    from run pixel have "\<exists>out.
        get_paste_back cv fthresh erosion_factor M aimg_shape bgr_fake fake_diff target_shape
          target_img = Inr out
        \<and> (\<forall>i j c.
              out i j c =
                astype_uint8
                  (fl32 (fl32 (img_mask i j * astype_float32 (?warped i j c))
                         + fl32 (fl32 (1 - img_mask i j) * astype_float32 (target_img i j c))))
              \<and> (img_mask i j = 1 \<longrightarrow> out i j c = ?warped i j c)
              \<and> (img_mask i j = 0 \<longrightarrow> out i j c = target_img i j c))"
      if "\<not> py_int (fl64 (5 * erosion_factor)) < 0"
      using that by blast
    with Inr indep raise show ?thesis by simp
  qed
qed

lemma ex_final_img_mask:
  "final_img_mask ex_cv 1 () (1, 1) (1, 3)
   = Inr (\<lambda>i j. if j = 0 then 1 else if j = 1 then 0 else 8421505 / 2 ^ 32)"
  using feathered_weight
  by (auto simp add: final_img_mask_def ex_cv_def np_where_255_def Let_def py_int_def upt_rec
      fun_eq_iff)

text \<open>
  With the erosion factor \<open>- 1\<close> the presence mask of the same example is computed (both of
  its kernel sizes are \<open>max 0 _\<close>), and the blur of the difference mask raises.
\<close>

lemma ex_negative_blur_size:
  "get_paste_back ex_cv 10 (- 1) () (1, 1) ex_fake (\<lambda>i j. 50) (1, 3) ex_target = Inl CvError"
  by (simp add: get_paste_back_def final_img_mask_def final_fake_diff_def ex_cv_def
      np_where_255_def Let_def py_int_def upt_rec)

theorem get_paste_back_merge_witness:
  "\<exists>out. get_paste_back ex_cv 10 1 () (1, 1) ex_fake (\<lambda>i j. 50) (1, 3) ex_target = Inr out
     \<and> get_paste_back ex_cv 250 1 () (1, 1) ex_fake (\<lambda>i j. 0) (1, 3) ex_target = Inr out
     \<and> ex_fake 0 0 0 = 200 \<and> ex_target 0 0 0 = 7 \<and> out 0 0 0 = 200
     \<and> ex_fake 0 1 0 = 200 \<and> ex_target 0 1 0 = 7 \<and> out 0 1 0 = 7
     \<and> ex_fake 0 2 0 = 200 \<and> ex_target 0 2 0 = 200 \<and> out 0 2 0 = 199"
proof -
  let ?mask = "\<lambda>i j :: nat. if j = 0 then 1 else if j = 1 then 0 else 8421505 / 2 ^ 32 :: real"
  have mask: "final_img_mask ex_cv 1 (invertAffineTransform ex_cv ()) (1, 1) (1, 3) = Inr ?mask"
    using ex_final_img_mask by (simp add: ex_cv_def)
  have warped: "warpAffine_image ex_cv ex_fake (1, 1) (invertAffineTransform ex_cv ())
      (snd (1, 3), fst (1, 3)) = ex_fake"
    by (simp add: ex_cv_def)
  have size: "(py_int (fl64 (5 * 1)) < 0) = False"
    by (simp add: py_int_def)
  from get_paste_back_merge [where cv = ex_cv and erosion_factor = 1 and M = "()"
      and aimg_shape = "(1, 1)" and target_shape = "(1, 3)" and fthresh = 10
      and bgr_fake = ex_fake and fake_diff = "\<lambda>i j. 50" and target_img = ex_target]
  obtain out where
    run: "get_paste_back ex_cv 10 1 () (1, 1) ex_fake (\<lambda>i j. 50) (1, 3) ex_target = Inr out"
    and px: "\<forall>i j c.
        out i j c =
          astype_uint8
            (fl32 (fl32 (?mask i j * astype_float32 (ex_fake i j c))
                   + fl32 (fl32 (1 - ?mask i j) * astype_float32 (ex_target i j c))))
        \<and> (?mask i j = 1 \<longrightarrow> out i j c = ex_fake i j c)
        \<and> (?mask i j = 0 \<longrightarrow> out i j c = ex_target i j c)"
    and same: "get_paste_back ex_cv 250 1 () (1, 1) ex_fake (\<lambda>i j. 0) (1, 3) ex_target
      = get_paste_back ex_cv 10 1 () (1, 1) ex_fake (\<lambda>i j. 50) (1, 3) ex_target"
    unfolding mask warped sum.case size if_False by blast
  from px have "?mask 0 0 = 1 \<longrightarrow> out 0 0 0 = ex_fake 0 0 0" by blast
  then have first: "out 0 0 0 = 200" by (simp add: ex_fake_def)
  from px have "?mask 0 1 = 0 \<longrightarrow> out 0 1 0 = ex_target 0 1 0" by blast
  then have second: "out 0 1 0 = 7" by (simp add: ex_target_def)
  from px have "out 0 2 0 =
      astype_uint8
        (fl32 (fl32 (?mask 0 2 * astype_float32 (ex_fake 0 2 0))
               + fl32 (fl32 (1 - ?mask 0 2) * astype_float32 (ex_target 0 2 0))))"
    by blast
  then have "out 0 2 0 =
      astype_uint8
        (fl32 (fl32 (8421505 / 2 ^ 32 * astype_float32 200)
               + fl32 (fl32 (1 - 8421505 / 2 ^ 32) * astype_float32 200)))"
    by (simp add: ex_fake_def ex_target_def)
  then have third: "out 0 2 0 = 199" by (simp only: blend_feathered)
  have "ex_fake 0 0 0 = 200 \<and> ex_target 0 0 0 = 7 \<and> ex_fake 0 1 0 = 200
      \<and> ex_target 0 1 0 = 7 \<and> ex_fake 0 2 0 = 200 \<and> ex_target 0 2 0 = 200"
    by (simp add: ex_fake_def ex_target_def)
  with run same first second third show ?thesis by simp
qed

end
